theory Spec2Isabelle
  imports Complex_Main "HOL-Library.Sublist"
begin

section \<open>Data model\<close>

text \<open>
  The dashboard of \<^verbatim>\<open>app.py\<close> holds its three datasets as pandas data frames.
  A frame is modelled by its ordered column names and its ordered rows; a row maps a
  field name to a cell. A cell is a string, a number or Python's \<^verbatim>\<open>None\<close>. A key that a
  row does not have, although the frame has the column, reads as NaN, which is what
  \<^verbatim>\<open>pd.DataFrame(records)\<close> stores for a record that lacks a key.

  A Python float is modelled by the real number it denotes, by one of the two infinities,
  or by NaN. Comparisons of floats are exact, and the bounds of the two bounding boxes
  are exactly representable, so no rounding enters the comparisons modelled here.
\<close>

datatype pyfloat = Fin real | PInf | NInf | NaN

datatype cell = Str string | Num pyfloat | NoneV

type_synonym row = "string \<rightharpoonup> cell"

record frame =
  columns :: "string list"
  rows :: "row list"

datatype exn =
    KeyError string
  | AttributeError string
  | TypeError string
  | RequestException string
  | OtherError string
  | OSError string
  | RetryError

text \<open>\<^verbatim>\<open>pd.DataFrame()\<close>: no columns, no rows.\<close>

definition empty_frame :: frame where
  "empty_frame = \<lparr>columns = [], rows = []\<rparr>"

text \<open>\<^verbatim>\<open>df.empty\<close>: true when either axis has length zero.\<close>

definition empty :: "frame \<Rightarrow> bool" where
  "empty df = (rows df = [] \<or> columns df = [])"

definition cell_of :: "row \<Rightarrow> string \<Rightarrow> cell" where
  "cell_of r c = (case r c of None \<Rightarrow> Num NaN | Some v \<Rightarrow> v)"

text \<open>\<^verbatim>\<open>pd.isna\<close> on one cell: \<^verbatim>\<open>None\<close> and NaN are the missing values.\<close>

fun isna :: "cell \<Rightarrow> bool" where
  "isna NoneV = True"
| "isna (Num NaN) = True"
| "isna _ = False"

text \<open>Float comparison \<^verbatim>\<open>x <= y\<close>; every comparison with NaN is false.\<close>

fun float_le :: "pyfloat \<Rightarrow> pyfloat \<Rightarrow> bool" where
  "float_le NaN _ = False"
| "float_le _ NaN = False"
| "float_le NInf _ = True"
| "float_le _ PInf = True"
| "float_le (Fin a) (Fin b) = (a \<le> b)"
| "float_le _ _ = False"

section \<open>Regional Filter\<close>

text \<open>
  \<^verbatim>\<open>Series.between(left, right)\<close> is \<^verbatim>\<open>(s >= left) & (s <= right)\<close>, inclusive on both
  ends. On a column that holds a string the comparison with a float raises
  \<^verbatim>\<open>TypeError\<close>; a missing value compares false.
\<close>

fun between_cell :: "cell \<Rightarrow> real \<Rightarrow> real \<Rightarrow> bool" where
  "between_cell (Num x) left right = (float_le (Fin left) x \<and> float_le x (Fin right))"
| "between_cell _ left right = False"

fun is_Str :: "cell \<Rightarrow> bool" where
  "is_Str (Str s) = True"
| "is_Str _ = False"

definition column_cells :: "frame \<Rightarrow> string \<Rightarrow> cell list" where
  "column_cells df c = map (\<lambda>r. cell_of r c) (rows df)"

text \<open>
  \<^verbatim>\<open>df[c].between(left, right)\<close>: \<^verbatim>\<open>KeyError\<close> when the frame has no column \<^verbatim>\<open>c\<close>,
  \<^verbatim>\<open>TypeError\<close> when the column holds a string, else the row-wise mask.
\<close>

definition between :: "frame \<Rightarrow> string \<Rightarrow> real \<Rightarrow> real \<Rightarrow> exn + bool list" where
  "between df c left right =
     (if c \<notin> set (columns df) then Inl (KeyError c)
      else if \<exists>x \<in> set (column_cells df c). is_Str x
        then Inl (TypeError ''>= not supported between instances of str and float'')
      else Inr (map (\<lambda>x. between_cell x left right) (column_cells df c)))"

text \<open>The four tuples of \<^verbatim>\<open>filter_usinas_by_region\<close>, as (first, second) components.\<close>

definition lat_norte :: "real \<times> real" where "lat_norte = (5.0, -5.0)"
definition long_norte :: "real \<times> real" where "long_norte = (-75.0, -60.0)"
definition lat_nordeste :: "real \<times> real" where "lat_nordeste = (-5.0, -18.0)"
definition long_nordeste :: "real \<times> real" where "long_nordeste = (-75.0, -34.0)"

text \<open>\<^verbatim>\<open>df[mask]\<close>: the rows whose mask entry is true, in order, with the same columns.\<close>

definition select_rows :: "frame \<Rightarrow> bool list \<Rightarrow> frame" where
  "select_rows df bs = df\<lparr>rows := map fst (filter snd (zip (rows df) bs))\<rparr>"

text \<open>
  \<^verbatim>\<open>filter_usinas_by_region\<close>. Python evaluates the four \<^verbatim>\<open>between\<close> calls from left to
  right, so the first one that raises decides the exception.
\<close>

definition filter_usinas_by_region :: "frame \<Rightarrow> exn + frame" where
  "filter_usinas_by_region df =
     (case between df ''latitude'' (snd lat_norte) (fst lat_norte) of
        Inl e \<Rightarrow> Inl e
      | Inr a \<Rightarrow>
     (case between df ''longitude'' (fst long_norte) (snd long_norte) of
        Inl e \<Rightarrow> Inl e
      | Inr b \<Rightarrow>
     (case between df ''latitude'' (snd lat_nordeste) (fst lat_nordeste) of
        Inl e \<Rightarrow> Inl e
      | Inr c \<Rightarrow>
     (case between df ''longitude'' (fst long_nordeste) (snd long_nordeste) of
        Inl e \<Rightarrow> Inl e
      | Inr d \<Rightarrow>
          Inr (select_rows df
                 (map (\<lambda>(((p, q), r), s). (p \<and> q) \<or> (r \<and> s)) (zip (zip (zip a b) c) d)))))))"

text \<open>A frame whose two coordinate columns exist and hold no string.\<close>

definition numeric_coords :: "frame \<Rightarrow> bool" where
  "numeric_coords df =
     (''latitude'' \<in> set (columns df) \<and> ''longitude'' \<in> set (columns df) \<and>
      list_all (\<lambda>r. \<not> is_Str (cell_of r ''latitude'') \<and> \<not> is_Str (cell_of r ''longitude''))
        (rows df))"

text \<open>The row predicate the filter computes, read off the four masks.\<close>

definition in_region :: "row \<Rightarrow> bool" where
  "in_region r =
     ((between_cell (cell_of r ''latitude'') (-5) 5 \<and>
       between_cell (cell_of r ''longitude'') (-75) (-60)) \<or>
      (between_cell (cell_of r ''latitude'') (-18) (-5) \<and>
       between_cell (cell_of r ''longitude'') (-75) (-34)))"

section \<open>Coordinate Normalizer\<close>

text \<open>
  \<^verbatim>\<open>s.replace(',', '.')\<close> on one string: every comma becomes a period.
\<close>

definition str_replace :: "string \<Rightarrow> string" where
  "str_replace s = map (\<lambda>c. if c = CHR '','' then CHR ''.'' else c) s"

text \<open>
  A frame as modelled here has cells but no dtype, and on a column without a cell, or with
  missing values only, the cells do not tell the dtype. So the dtype comes beside the
  frame, as a table \<open>obj\<close>: \<open>obj c\<close> holds when column \<open>c\<close> has object dtype and fails
  when it has a numeric dtype.

  The \<^verbatim>\<open>.str\<close> accessor exists on a column of object dtype whose values pandas infers
  to be strings, mixed, or empty: some cell is a string, or every cell is missing (which
  covers the column with no cell). On a numeric column, and on an object column of
  numbers, \<^verbatim>\<open>.str\<close> raises \<^verbatim>\<open>AttributeError\<close>.
\<close>

definition str_accessor_ok :: "bool \<Rightarrow> cell list \<Rightarrow> bool" where
  "str_accessor_ok is_object cs = (is_object \<and> (list_ex is_Str cs \<or> list_all isna cs))"

text \<open>
  The dtype table of a frame that \<^verbatim>\<open>pd.DataFrame(records)\<close> built: a column is of object
  dtype when some cell is a string or when every cell is \<^verbatim>\<open>None\<close>; otherwise it is numeric
  and its \<^verbatim>\<open>None\<close>s have become NaN.
\<close>

definition records_dtype :: "frame \<Rightarrow> string \<Rightarrow> bool" where
  "records_dtype df c =
     (list_ex is_Str (column_cells df c) \<or> list_all (\<lambda>x. x = NoneV) (column_cells df c))"

text \<open>
  \<^verbatim>\<open>Series.str.replace\<close> maps a string cell and yields NaN for a cell that is not a string.
\<close>

fun str_replace_cell :: "cell \<Rightarrow> cell" where
  "str_replace_cell (Str s) = Str (str_replace s)"
| "str_replace_cell _ = Num NaN"

text \<open>
  \<^verbatim>\<open>pd.to_numeric(..., errors='coerce')\<close> on one cell. The float parser is the library's;
  it is a parameter \<open>parse\<close>, with \<open>None\<close> for a string it rejects, which
  \<^verbatim>\<open>errors='coerce'\<close> turns into NaN.
\<close>

fun to_numeric :: "(string \<Rightarrow> pyfloat option) \<Rightarrow> cell \<Rightarrow> pyfloat" where
  "to_numeric parse (Str s) = (case parse s of None \<Rightarrow> NaN | Some x \<Rightarrow> x)"
| "to_numeric parse (Num x) = x"
| "to_numeric parse NoneV = NaN"

text \<open>
  \<^verbatim>\<open>df[c] = series\<close>: an existing column is overwritten in place, a new one is appended
  as the last column. The frame object itself is changed.
\<close>

definition with_column :: "string list \<Rightarrow> string \<Rightarrow> string list" where
  "with_column cs c = (if c \<in> set cs then cs else cs @ [c])"

definition set_column :: "frame \<Rightarrow> string \<Rightarrow> (row \<Rightarrow> cell) \<Rightarrow> frame" where
  "set_column df c f =
     \<lparr>columns = with_column (columns df) c,
      rows = map (\<lambda>r. r(c \<mapsto> f r)) (rows df)\<rparr>"

text \<open>
  \<^verbatim>\<open>df.dropna(subset=cols)\<close>: \<^verbatim>\<open>KeyError\<close> when a column of the subset is absent (reported
  here with the first absent name), else the rows with no missing value in the subset.
\<close>

definition dropna :: "string list \<Rightarrow> frame \<Rightarrow> exn + frame" where
  "dropna cols df =
     (case filter (\<lambda>c. c \<notin> set (columns df)) cols of
        c # _ \<Rightarrow> Inl (KeyError c)
      | [] \<Rightarrow> Inr (df\<lparr>rows := filter (\<lambda>r. list_all (\<lambda>c. \<not> isna (cell_of r c)) cols) (rows df)\<rparr>))"

text \<open>
  \<^verbatim>\<open>pd.to_numeric(df[c].str.replace(',', '.'), errors='coerce')\<close>, as the function that
  gives each row its new cell.
\<close>

definition coord_column ::
  "(string \<Rightarrow> pyfloat option) \<Rightarrow> (string \<Rightarrow> bool) \<Rightarrow> frame \<Rightarrow> string \<Rightarrow> exn + (row \<Rightarrow> cell)" where
  "coord_column parse obj df c =
     (if c \<notin> set (columns df) then Inl (KeyError c)
      else if \<not> str_accessor_ok (obj c) (column_cells df c)
        then Inl (AttributeError ''Can only use .str accessor with string values!'')
      else Inr (\<lambda>r. Num (to_numeric parse (str_replace_cell (cell_of r c)))))"

text \<open>
  \<^verbatim>\<open>process_coordinates\<close>, on a frame \<open>df\<close> with dtype table \<open>obj\<close>. The two assignments
  change the argument, so the model returns the result (or the exception) together with
  the argument as the call leaves it. The assigned \<^verbatim>\<open>latitude\<close> column is numeric.
\<close>

definition process_coordinates ::
  "(string \<Rightarrow> pyfloat option) \<Rightarrow> (string \<Rightarrow> bool) \<Rightarrow> frame \<Rightarrow> (exn + frame) \<times> frame" where
  "process_coordinates parse obj df =
     (case coord_column parse obj df ''lat_str'' of
        Inl e \<Rightarrow> (Inl e, df)
      | Inr lat \<Rightarrow>
          (let df1 = set_column df ''latitude'' lat in
           case coord_column parse (obj(''latitude'' := False)) df1 ''lng_str'' of
             Inl e \<Rightarrow> (Inl e, df1)
           | Inr lng \<Rightarrow>
               (let df2 = set_column df1 ''longitude'' lng in
                (dropna [''latitude'', ''longitude''] df2, df2))))"

section \<open>Files, network and user interface\<close>

text \<open>
  What the loaders touch outside the process is one state: the files, the answers of the
  remote endpoint, and a log of what was done (requests sent, files read and written,
  messages shown with \<^verbatim>\<open>st.error\<close> and \<^verbatim>\<open>st.warning\<close>).

  A file either deserializes as a Parquet snapshot of a frame, or parses as a delimited
  text file to a frame, or does neither. \<^verbatim>\<open>to_parquet\<close> followed by \<^verbatim>\<open>read_parquet\<close> is taken
  to give the frame back. Whether \<^verbatim>\<open>df.to_parquet(p)\<close> succeeds depends on the path and on
  the frame: the directory must exist and be writable, and the frame must be one the
  Parquet writer can serialize (it refuses a column that mixes strings and numbers). The
  state says for which paths and frames the write succeeds, in \<open>writable\<close>.
  The endpoint is a script: its k-th request (counted from 0)
  either raises or yields the frame that
  \<^verbatim>\<open>pd.DataFrame(response.json().get('result', {}).get('records', []))\<close> builds.
\<close>

type_synonym path = string

datatype disk_file = Parquet frame | Csv frame | Unreadable

datatype attempt = Raises exn | Returns frame

datatype event =
    HttpGet string "(string \<times> string) list"
  | ReadParquet path
  | ReadCsv path
  | WriteParquet path
  | StError string
  | StWarning string

record world =
  files :: "path \<rightharpoonup> disk_file"
  writable :: "path \<Rightarrow> frame \<Rightarrow> bool"
  endpoint :: "nat \<Rightarrow> attempt"
  log :: "event list"

subsection \<open>Config\<close>

definition CACHE_DIR :: path where "CACHE_DIR = ''.cache''"
definition DATA_DIR :: path where "DATA_DIR = ''data''"
definition FRANCHISE_INPUT :: path where "FRANCHISE_INPUT = ''input/franquias.csv''"
definition USINA_INPUT :: path where "USINA_INPUT = ''input/dados_com_geolocalizacao.csv''"
definition ANEEL_CACHE :: path where "ANEEL_CACHE = CACHE_DIR @ ''/'' @ ''aneel.parquet''"
definition COMPANY_DATA :: path where "COMPANY_DATA = DATA_DIR @ ''/'' @ ''empresa.parquet''"
definition FRANCHISE_DATA :: path where "FRANCHISE_DATA = DATA_DIR @ ''/'' @ ''franquias.parquet''"

definition ANEEL_URL :: string where
  "ANEEL_URL = ''https://dadosabertos.aneel.gov.br/api/3/action/datastore_search_sql''"

text \<open>
  The lines of the triple-quoted \<^verbatim>\<open>ANEEL_QUERY\<close> between its opening newline and its
  closing indentation; the fifth line ends in a blank, as in the source.
\<close>

definition ANEEL_QUERY_lines :: "string list" where
  "ANEEL_QUERY_lines =
    [''    SELECT \"NomMunicipio\", \"SigUF\", \"NomRegiao\",'',
     ''           \"NumCoordNEmpreendimento\" AS lat_str,'',
     ''           \"NumCoordEEmpreendimento\" AS lng_str'',
     ''    FROM \"b1bd71e7-d0ad-4214-9053-cbd58e9564a7\"'',
     ''    WHERE '',
     ''      \"SigUF\" = '' @ [CHR 0x27] @ ''PA'' @ [CHR 0x27],
     ''      AND \"NumCoordNEmpreendimento\" IS NOT NULL'',
     ''    LIMIT 80000'']"

definition ANEEL_QUERY :: string where
  "ANEEL_QUERY = [CHR 0x0A] @ concat (map (\<lambda>l. l @ [CHR 0x0A]) ANEEL_QUERY_lines) @ ''    ''"

subsection \<open>Reading the query\<close>

text \<open>
  What the query selects and which rows it lets through is read off its text. The text is
  cut into lines, each stripped of the blanks around it. The select list is the text from
  \<^verbatim>\<open>SELECT\<close> up to the \<^verbatim>\<open>FROM\<close> line, cut at the commas. The conditions are the lines
  after the \<^verbatim>\<open>WHERE\<close> line and before the \<^verbatim>\<open>LIMIT\<close> line, joined by \<^verbatim>\<open>AND\<close>; each is
  \<^verbatim>\<open>"field" = 'text'\<close> or \<^verbatim>\<open>"field" IS NOT NULL\<close>, and the reading fails on anything else.
\<close>

fun split_on :: "char \<Rightarrow> string \<Rightarrow> string list" where
  "split_on d [] = [[]]"
| "split_on d (c # cs) =
     (if c = d then [] # split_on d cs
      else (case split_on d cs of x # xs \<Rightarrow> (c # x) # xs | [] \<Rightarrow> [[c]]))"

definition strip :: "string \<Rightarrow> string" where
  "strip s = rev (dropWhile (\<lambda>c. c = CHR '' '') (rev (dropWhile (\<lambda>c. c = CHR '' '') s)))"

definition query_lines :: "string \<Rightarrow> string list" where
  "query_lines q = map strip (split_on (CHR 0x0A) q)"

definition select_items :: "string \<Rightarrow> string list" where
  "select_items q =
     (let sel = takeWhile (\<lambda>l. \<not> prefix ''FROM'' l)
                  (dropWhile (\<lambda>l. \<not> prefix ''SELECT'' l) (query_lines q))
      in filter (\<lambda>i. i \<noteq> [])
           (map strip (split_on (CHR '','') (drop 6 (concat (map (\<lambda>l. l @ '' '') sel))))))"

datatype condition = Equals string string | IsNotNull string

definition parse_condition :: "string \<Rightarrow> condition option" where
  "parse_condition s =
     (case s of
        [] \<Rightarrow> None
      | c # rest \<Rightarrow>
          if c \<noteq> CHR 0x22 then None
          else
            (let field = takeWhile (\<lambda>x. x \<noteq> CHR 0x22) rest;
                 after = drop (Suc (length field)) rest
             in if after = '' IS NOT NULL'' then Some (IsNotNull field)
                else if prefix ('' = '' @ [CHR 0x27]) after \<and> 5 \<le> length after \<and>
                        last after = CHR 0x27 \<and> CHR 0x27 \<notin> set (butlast (drop 4 after))
                  then Some (Equals field (butlast (drop 4 after)))
                else None))"

fun all_some :: "'a option list \<Rightarrow> 'a list option" where
  "all_some [] = Some []"
| "all_some (None # xs) = None"
| "all_some (Some x # xs) = (case all_some xs of None \<Rightarrow> None | Some ys \<Rightarrow> Some (x # ys))"

definition where_conditions :: "string \<Rightarrow> condition list option" where
  "where_conditions q =
     all_some
       (map (\<lambda>l. parse_condition (if prefix ''AND '' l then strip (drop 4 l) else l))
          (takeWhile (\<lambda>l. \<not> prefix ''LIMIT'' l)
             (drop 1 (dropWhile (\<lambda>l. l \<noteq> ''WHERE'') (query_lines q)))))"

text \<open>
  A condition on a row of the remote table. A comparison with a null is not true, so a
  row passes \<^verbatim>\<open>"field" = 'text'\<close> only when the field holds that text.
\<close>

fun holds :: "row \<Rightarrow> condition \<Rightarrow> bool" where
  "holds r (Equals f v) = (cell_of r f = Str v)"
| "holds r (IsNotNull f) = (\<not> isna (cell_of r f))"

text \<open>The rows that the \<^verbatim>\<open>WHERE\<close> clause of \<^verbatim>\<open>ANEEL_QUERY\<close> lets through.\<close>

definition aneel_where :: "row \<Rightarrow> bool" where
  "aneel_where r =
     (case where_conditions ANEEL_QUERY of
        None \<Rightarrow> False
      | Some cs \<Rightarrow> list_all (holds r) cs)"

subsection \<open>Messages with non-ASCII letters\<close>

text \<open>
  Three messages of the source have a letter outside ASCII; it is written as its two
  UTF-8 bytes: \<^verbatim>\<open>Cache ANEEL inv[a-acute]lido, recriando...: \<close>,
  \<^verbatim>\<open>Dados da ANEEL est[a-tilde]o vazios.\<close> and \<^verbatim>\<open>Arquivo de usinas n[a-tilde]o encontrado.\<close>
\<close>

definition cache_invalid_msg :: string where
  "cache_invalid_msg = ''Cache ANEEL inv'' @ [CHR 0xC3, CHR 0xA1] @ ''lido, recriando...: ''"

definition aneel_empty_msg :: string where
  "aneel_empty_msg = ''Dados da ANEEL est'' @ [CHR 0xC3, CHR 0xA3] @ ''o vazios.''"

definition usinas_not_found_msg :: string where
  "usinas_not_found_msg = ''Arquivo de usinas n'' @ [CHR 0xC3, CHR 0xA3] @ ''o encontrado.''"

subsection \<open>Primitive effects\<close>

text \<open>\<^verbatim>\<open>str(e)\<close>; for a \<^verbatim>\<open>KeyError\<close> Python quotes the key.\<close>

fun str_exn :: "exn \<Rightarrow> string" where
  "str_exn (KeyError k) = [CHR 0x27] @ k @ [CHR 0x27]"
| "str_exn (AttributeError m) = m"
| "str_exn (TypeError m) = m"
| "str_exn (RequestException m) = m"
| "str_exn (OtherError m) = m"
| "str_exn (OSError m) = m"
| "str_exn RetryError = ''RetryError''"

definition record_event :: "event \<Rightarrow> world \<Rightarrow> world" where
  "record_event e w = w\<lparr>log := log w @ [e]\<rparr>"

definition st_error :: "string \<Rightarrow> world \<Rightarrow> world" where
  "st_error m w = record_event (StError m) w"

definition st_warning :: "string \<Rightarrow> world \<Rightarrow> world" where
  "st_warning m w = record_event (StWarning m) w"

text \<open>\<^verbatim>\<open>Path.exists()\<close>.\<close>

definition path_exists :: "world \<Rightarrow> path \<Rightarrow> bool" where
  "path_exists w p = (files w p \<noteq> None)"

definition read_parquet :: "path \<Rightarrow> world \<Rightarrow> (exn + frame) \<times> world" where
  "read_parquet p w =
     (case files w p of
        None \<Rightarrow> Inl (OSError ''No such file or directory'')
      | Some (Parquet df) \<Rightarrow> Inr df
      | Some _ \<Rightarrow> Inl (OtherError ''Parquet magic bytes not found''),
      record_event (ReadParquet p) w)"

definition read_csv :: "path \<Rightarrow> world \<Rightarrow> (exn + frame) \<times> world" where
  "read_csv p w =
     (case files w p of
        None \<Rightarrow> Inl (OSError ''No such file or directory'')
      | Some (Csv df) \<Rightarrow> Inr df
      | Some _ \<Rightarrow> Inl (OtherError ''Error tokenizing data''),
      record_event (ReadCsv p) w)"

text \<open>
  \<^verbatim>\<open>df.to_parquet(p)\<close> overwrites the file. Where the path cannot be written or the frame
  cannot be serialized it raises and leaves the files as they are.
\<close>

definition to_parquet :: "path \<Rightarrow> frame \<Rightarrow> world \<Rightarrow> (exn + unit) \<times> world" where
  "to_parquet p df w =
     (if writable w p df
      then (Inr (), record_event (WriteParquet p) (w\<lparr>files := (files w)(p \<mapsto> Parquet df)\<rparr>))
      else (Inl (OtherError ''Cannot write the Parquet file''), w))"

fun is_HttpGet :: "event \<Rightarrow> bool" where
  "is_HttpGet (HttpGet url params) = True"
| "is_HttpGet _ = False"

fun is_StError :: "event \<Rightarrow> bool" where
  "is_StError (StError m) = True"
| "is_StError _ = False"

fun is_WriteParquet :: "event \<Rightarrow> bool" where
  "is_WriteParquet (WriteParquet p) = True"
| "is_WriteParquet _ = False"

text \<open>The number of HTTP requests sent so far.\<close>

definition requests_made :: "world \<Rightarrow> nat" where
  "requests_made w = length (filter is_HttpGet (log w))"

section \<open>Remote Fetcher\<close>

text \<open>
  The body of \<^verbatim>\<open>fetch_aneel\<close>, one call: one \<^verbatim>\<open>requests.get\<close> with the fixed URL and the
  \<^verbatim>\<open>sql\<close> parameter. A \<^verbatim>\<open>RequestException\<close> is caught inside the body, which then shows
  the error and returns \<^verbatim>\<open>pd.DataFrame()\<close>; any other exception leaves the body.
\<close>

definition fetch_aneel_body :: "world \<Rightarrow> (exn + frame) \<times> world" where
  "fetch_aneel_body w =
     (let w1 = record_event (HttpGet ANEEL_URL [(''sql'', ANEEL_QUERY)]) w in
      case endpoint w (requests_made w) of
        Returns df \<Rightarrow> (Inr df, w1)
      | Raises e \<Rightarrow>
          (case e of
             RequestException m \<Rightarrow> (Inr empty_frame, st_error (''Erro na API ANEEL: '' @ str_exn e) w1)
           | _ \<Rightarrow> (Inl e, w1)))"

text \<open>
  The decorator \<^verbatim>\<open>@retry(stop=stop_after_attempt(n), ...)\<close> of the tenacity library: the
  wrapped function is called again only when a call raised; a call that returns ends the
  loop with its value. When the \<open>n\<close>-th call raises too, \<^verbatim>\<open>RetryError\<close> is raised. The
  waiting between calls takes time only and is not part of the state. \<open>k\<close> is the number
  of the current attempt, from 1.
\<close>

function retry :: "nat \<Rightarrow> (world \<Rightarrow> (exn + 'a) \<times> world) \<Rightarrow> nat \<Rightarrow> world \<Rightarrow> (exn + 'a) \<times> world" where
  "retry n f k w =
     (case f w of
        (Inr x, w') \<Rightarrow> (Inr x, w')
      | (Inl e, w') \<Rightarrow> if k \<ge> n then (Inl RetryError, w') else retry n f (Suc k) w')"
  by pat_completeness auto
termination
  by (relation "measure (\<lambda>(n, f, k, w). n - k)") auto

declare retry.simps [simp del]

definition fetch_aneel :: "world \<Rightarrow> (exn + frame) \<times> world" where
  "fetch_aneel w = retry 3 fetch_aneel_body 1 w"

section \<open>Dataset Loaders\<close>

text \<open>
  \<^verbatim>\<open>load_aneel_data\<close>. The first component of the inner pair is the frame the cache gave,
  if it gave one; a snapshot that does not deserialize leaves a warning and nothing else.
  The fetched frame was built by \<^verbatim>\<open>pd.DataFrame(records)\<close>, which fixes its dtypes.
\<close>

definition load_aneel_data ::
  "(string \<Rightarrow> pyfloat option) \<Rightarrow> world \<Rightarrow> (exn + frame) \<times> world" where
  "load_aneel_data parse w =
     (case (if path_exists w ANEEL_CACHE
            then (case read_parquet ANEEL_CACHE w of
                    (Inr df, w1) \<Rightarrow> (Some df, w1)
                  | (Inl e, w1) \<Rightarrow>
                      (None, st_warning (cache_invalid_msg @ str_exn e) w1))
            else (None, w)) of
        (Some df, w1) \<Rightarrow> (Inr df, w1)
      | (None, w1) \<Rightarrow>
          (case fetch_aneel w1 of
             (Inl e, w2) \<Rightarrow> (Inl e, w2)
           | (Inr df, w2) \<Rightarrow>
               if \<not> empty df
               then (case fst (process_coordinates parse (records_dtype df) df) of
                       Inl e \<Rightarrow> (Inl e, w2)
                     | Inr df' \<Rightarrow>
                         (case to_parquet ANEEL_CACHE df' w2 of
                            (Inl e, w3) \<Rightarrow> (Inl e, w3)
                          | (Inr u, w3) \<Rightarrow> (Inr df', w3)))
               else (Inr df, st_error aneel_empty_msg w2)))"

text \<open>
  \<^verbatim>\<open>load_franchise_data\<close>. Both \<^verbatim>\<open>try\<close> blocks catch every exception, show it and fall
  through; the last statement returns \<^verbatim>\<open>pd.DataFrame()\<close> and shows nothing.
\<close>

definition load_franchise_data :: "world \<Rightarrow> (exn + frame) \<times> world" where
  "load_franchise_data w =
     (case (if path_exists w FRANCHISE_DATA
            then (case read_parquet FRANCHISE_DATA w of
                    (Inr df, w1) \<Rightarrow> (Some df, w1)
                  | (Inl e, w1) \<Rightarrow>
                      (None, st_error (''Erro ao carregar dados de franquias: '' @ str_exn e) w1))
            else (None, w)) of
        (Some df, w1) \<Rightarrow> (Inr df, w1)
      | (None, w1) \<Rightarrow>
          (case (if path_exists w1 FRANCHISE_INPUT
                 then (case read_csv FRANCHISE_INPUT w1 of
                         (Inl e, w2) \<Rightarrow>
                           (None, st_error (''Erro ao carregar franquias do CSV: '' @ str_exn e) w2)
                       | (Inr df, w2) \<Rightarrow>
                           (case dropna [''latitude'', ''longitude''] df of
                              Inl e \<Rightarrow>
                                (None, st_error (''Erro ao carregar franquias do CSV: '' @ str_exn e) w2)
                            | Inr df' \<Rightarrow>
                                (case to_parquet FRANCHISE_DATA df' w2 of
                                   (Inl e, w3) \<Rightarrow>
                                     (None, st_error (''Erro ao carregar franquias do CSV: '' @ str_exn e) w3)
                                 | (Inr u, w3) \<Rightarrow> (Some df', w3))))
                 else (None, w1)) of
             (Some df, w2) \<Rightarrow> (Inr df, w2)
           | (None, w2) \<Rightarrow> (Inr empty_frame, w2)))"

text \<open>
  \<^verbatim>\<open>load_usina_data\<close>, the body that runs when the 24-hour memoization of
  \<^verbatim>\<open>st.cache_data\<close> has no entry. After a caught exception, and when the input file is
  absent, the function shows that the file was not found and returns \<^verbatim>\<open>pd.DataFrame()\<close>.
\<close>

definition load_usina_data :: "world \<Rightarrow> (exn + frame) \<times> world" where
  "load_usina_data w =
     (case (if path_exists w USINA_INPUT
            then (case read_csv USINA_INPUT w of
                    (Inl e, w1) \<Rightarrow>
                      (None, st_error (''Erro ao carregar usinas do CSV: '' @ str_exn e) w1)
                  | (Inr df, w1) \<Rightarrow>
                      (case dropna [''latitude'', ''longitude''] df of
                         Inl e \<Rightarrow>
                           (None, st_error (''Erro ao carregar usinas do CSV: '' @ str_exn e) w1)
                       | Inr df1 \<Rightarrow>
                           (case filter_usinas_by_region df1 of
                              Inl e \<Rightarrow>
                                (None, st_error (''Erro ao carregar usinas do CSV: '' @ str_exn e) w1)
                            | Inr df2 \<Rightarrow> (Some df2, w1))))
            else (None, w)) of
        (Some df, w1) \<Rightarrow> (Inr df, w1)
      | (None, w1) \<Rightarrow>
          (Inr empty_frame,
           st_error usinas_not_found_msg w1))"

section \<open>Example inputs\<close>

text \<open>
  Concrete inputs at which the theorems below are instantiated: a parser that knows two
  decimal strings, a fetched record set of two rows of which the second has an unparsable
  latitude, its normalized form, and states of the files and the network.
\<close>

text \<open>
  In the example states a write succeeds for the frames in which no column holds both a
  string and a number.
\<close>

fun is_number :: "cell \<Rightarrow> bool" where
  "is_number (Num x) = (x \<noteq> NaN)"
| "is_number _ = False"

definition serializable :: "frame \<Rightarrow> bool" where
  "serializable df =
     list_all (\<lambda>c. \<not> (list_ex is_Str (column_cells df c) \<and> list_ex is_number (column_cells df c)))
       (columns df)"

definition example_parse :: "string \<Rightarrow> pyfloat option" where
  "example_parse s =
     (if s = ''-1.45'' then Some (Fin (-1.45))
      else if s = ''-48.50'' then Some (Fin (-48.5))
      else None)"

definition aneel_records :: frame where
  "aneel_records =
     \<lparr>columns = [''lat_str'', ''lng_str''],
      rows = [[''lat_str'' \<mapsto> Str ''-1,45'', ''lng_str'' \<mapsto> Str ''-48,50''],
              [''lat_str'' \<mapsto> Str ''abc'', ''lng_str'' \<mapsto> Str ''-48,50'']]\<rparr>"

definition aneel_normalized :: frame where
  "aneel_normalized =
     \<lparr>columns = [''lat_str'', ''lng_str'', ''latitude'', ''longitude''],
      rows = [[''lat_str'' \<mapsto> Str ''-1,45'', ''lng_str'' \<mapsto> Str ''-48,50'',
               ''latitude'' \<mapsto> Num (Fin (-1.45)), ''longitude'' \<mapsto> Num (Fin (-48.5))]]\<rparr>"

definition world_corrupt_cache :: world where
  "world_corrupt_cache =
     \<lparr>files = [ANEEL_CACHE \<mapsto> Unreadable], writable = (\<lambda>p df. serializable df),
      endpoint = (\<lambda>k. Returns aneel_records), log = []\<rparr>"

definition world_cached :: world where
  "world_cached =
     \<lparr>files = [ANEEL_CACHE \<mapsto> Parquet aneel_normalized], writable = (\<lambda>p df. serializable df),
      endpoint = (\<lambda>k. Returns aneel_records), log = []\<rparr>"

definition world_offline :: world where
  "world_offline =
     \<lparr>files = [ANEEL_CACHE \<mapsto> Unreadable], writable = (\<lambda>p df. serializable df),
      endpoint = (\<lambda>k. Raises (RequestException ''Connection refused'')), log = []\<rparr>"

definition world_flaky :: world where
  "world_flaky =
     \<lparr>files = Map.empty, writable = (\<lambda>p df. serializable df),
      endpoint = (\<lambda>k. if k < 2 then Raises (RequestException ''Connection refused'')
                      else Returns aneel_records),
      log = []\<rparr>"

text \<open>
  A franchise source file of five rows whose third row has no longitude, in a state with
  no franchise snapshot; and a state with no file at all.
\<close>

definition franchise_csv :: frame where
  "franchise_csv =
     \<lparr>columns = [''Franquia'', ''latitude'', ''longitude''],
      rows = [[''Franquia'' \<mapsto> Str ''Belem'', ''latitude'' \<mapsto> Num (Fin (-1.45)), ''longitude'' \<mapsto> Num (Fin (-48.5))],
              [''Franquia'' \<mapsto> Str ''Manaus'', ''latitude'' \<mapsto> Num (Fin (-3.1)), ''longitude'' \<mapsto> Num (Fin (-60))],
              [''Franquia'' \<mapsto> Str ''Recife'', ''latitude'' \<mapsto> Num (Fin (-8.05)), ''longitude'' \<mapsto> Num NaN],
              [''Franquia'' \<mapsto> Str ''Natal'', ''latitude'' \<mapsto> Num (Fin (-5.8)), ''longitude'' \<mapsto> Num (Fin (-35.2))],
              [''Franquia'' \<mapsto> Str ''Macapa'', ''latitude'' \<mapsto> Num (Fin 0), ''longitude'' \<mapsto> Num (Fin (-51))]]\<rparr>"

definition franchise_kept :: frame where
  "franchise_kept =
     \<lparr>columns = [''Franquia'', ''latitude'', ''longitude''],
      rows = [[''Franquia'' \<mapsto> Str ''Belem'', ''latitude'' \<mapsto> Num (Fin (-1.45)), ''longitude'' \<mapsto> Num (Fin (-48.5))],
              [''Franquia'' \<mapsto> Str ''Manaus'', ''latitude'' \<mapsto> Num (Fin (-3.1)), ''longitude'' \<mapsto> Num (Fin (-60))],
              [''Franquia'' \<mapsto> Str ''Natal'', ''latitude'' \<mapsto> Num (Fin (-5.8)), ''longitude'' \<mapsto> Num (Fin (-35.2))],
              [''Franquia'' \<mapsto> Str ''Macapa'', ''latitude'' \<mapsto> Num (Fin 0), ''longitude'' \<mapsto> Num (Fin (-51))]]\<rparr>"

definition world_franchise_csv :: world where
  "world_franchise_csv =
     \<lparr>files = [FRANCHISE_INPUT \<mapsto> Csv franchise_csv], writable = (\<lambda>p df. serializable df),
      endpoint = (\<lambda>k. Raises (RequestException ''Connection refused'')), log = []\<rparr>"

definition world_no_files :: world where
  "world_no_files =
     \<lparr>files = Map.empty, writable = (\<lambda>p df. serializable df),
      endpoint = (\<lambda>k. Raises (RequestException ''Connection refused'')), log = []\<rparr>"

text \<open>
  A frame whose two raw coordinate columns are numeric and have no row, as a filter that
  drops every row of a numeric frame leaves it; and a fetched frame whose name column
  mixes a string and a number.
\<close>

definition no_rows_numeric :: frame where
  "no_rows_numeric = \<lparr>columns = [''lat_str'', ''lng_str''], rows = []\<rparr>"

definition aneel_records_mixed :: frame where
  "aneel_records_mixed =
     \<lparr>columns = [''NomMunicipio'', ''lat_str'', ''lng_str''],
      rows = [[''NomMunicipio'' \<mapsto> Str ''Belem'', ''lat_str'' \<mapsto> Str ''-1,45'', ''lng_str'' \<mapsto> Str ''-48,50''],
              [''NomMunicipio'' \<mapsto> Num (Fin 7), ''lat_str'' \<mapsto> Str ''-1,45'', ''lng_str'' \<mapsto> Str ''-48,50'']]\<rparr>"

definition world_mixed_records :: world where
  "world_mixed_records =
     \<lparr>files = Map.empty, writable = (\<lambda>p df. serializable df),
      endpoint = (\<lambda>k. Returns aneel_records_mixed), log = []\<rparr>"

lemma zip_map_same:
  "zip (map f xs) (map g xs) = map (\<lambda>x. (f x, g x)) xs"
  by (induction xs) simp_all

lemma select_rows_map:
  "select_rows df (map P (rows df)) = df\<lparr>rows := filter P (rows df)\<rparr>"
proof -
  have "map fst (filter snd (zip xs (map P xs))) = filter P xs" for xs :: "row list"
    by (induction xs) simp_all
  then show ?thesis by (simp add: select_rows_def)
qed

lemma between_numeric:
  assumes "c \<in> set (columns df)"
    and "list_all (\<lambda>r. \<not> is_Str (cell_of r c)) (rows df)"
  shows "between df c left right = Inr (map (\<lambda>r. between_cell (cell_of r c) left right) (rows df))"
  using assms by (auto simp: between_def column_cells_def list_all_iff)

lemma filter_numeric:
  assumes "numeric_coords df"
  shows "filter_usinas_by_region df = Inr (df\<lparr>rows := filter in_region (rows df)\<rparr>)"
proof -
  have lat: "''latitude'' \<in> set (columns df)"
    and lon: "''longitude'' \<in> set (columns df)"
    and nlat: "list_all (\<lambda>r. \<not> is_Str (cell_of r ''latitude'')) (rows df)"
    and nlon: "list_all (\<lambda>r. \<not> is_Str (cell_of r ''longitude'')) (rows df)"
    using assms by (auto simp: numeric_coords_def list_all_iff)
  have msk: "map (\<lambda>(((p, q), r), s). (p \<and> q) \<or> (r \<and> s))
      (zip (zip (zip (map (\<lambda>r. between_cell (cell_of r ''latitude'') (-5) 5) (rows df))
                     (map (\<lambda>r. between_cell (cell_of r ''longitude'') (-75) (-60)) (rows df)))
                (map (\<lambda>r. between_cell (cell_of r ''latitude'') (-18) (-5)) (rows df)))
           (map (\<lambda>r. between_cell (cell_of r ''longitude'') (-75) (-34)) (rows df)))
    = map in_region (rows df)"
    by (simp add: zip_map_same in_region_def)
  show ?thesis
    unfolding filter_usinas_by_region_def
    by (simp add: between_numeric [OF lat nlat] between_numeric [OF lon nlon]
        lat_norte_def long_norte_def lat_nordeste_def long_nordeste_def
        msk select_rows_map)
qed

lemma filter_Inr_numeric:
  assumes "filter_usinas_by_region df = Inr out"
  shows "numeric_coords df"
proof -
  from assms obtain a b where a: "between df ''latitude'' (snd lat_norte) (fst lat_norte) = Inr a"
    and b: "between df ''longitude'' (fst long_norte) (snd long_norte) = Inr b"
    by (auto simp: filter_usinas_by_region_def split: sum.splits)
  from a have "''latitude'' \<in> set (columns df)"
    and "\<forall>r \<in> set (rows df). \<not> is_Str (cell_of r ''latitude'')"
    by (auto simp: between_def column_cells_def split: if_splits)
  moreover from b have "''longitude'' \<in> set (columns df)"
    and "\<forall>r \<in> set (rows df). \<not> is_Str (cell_of r ''longitude'')"
    by (auto simp: between_def column_cells_def split: if_splits)
  ultimately show ?thesis
    by (simp add: numeric_coords_def list_all_iff)
qed

lemma in_region_finite:
  "in_region r =
     (\<exists>a b. cell_of r ''latitude'' = Num (Fin a) \<and> cell_of r ''longitude'' = Num (Fin b) \<and>
        ((-5 \<le> a \<and> a \<le> 5 \<and> -75 \<le> b \<and> b \<le> -60) \<or>
         (-18 \<le> a \<and> a \<le> -5 \<and> -75 \<le> b \<and> b \<le> -34)))"
proof -
  have one: "between_cell c lo hi = (\<exists>a. c = Num (Fin a) \<and> lo \<le> a \<and> a \<le> hi)" for c lo hi
  proof (cases c)
    case (Num x)
    then show ?thesis by (cases x) simp_all
  qed simp_all
  show ?thesis
    unfolding in_region_def one by auto
qed

section \<open>Properties of the Regional Filter\<close>

text \<open>
  Claim C4. On a frame whose \<^verbatim>\<open>latitude\<close> and \<^verbatim>\<open>longitude\<close> columns exist and are numeric,
  \<^verbatim>\<open>filter_usinas_by_region\<close> returns the frame with exactly those rows, in order, whose
  coordinates are finite numbers with latitude in [-5, 5] and longitude in [-75, -60], or
  latitude in [-18, -5] and longitude in [-75, -34], all bounds inclusive. In particular
  the row at latitude 5.0, longitude -60.0 is kept, and a row at latitude 5.0001 is
  dropped whatever its longitude.
\<close>

theorem filter_usinas_by_region_boxes:
  "(numeric_coords df \<longrightarrow>
      filter_usinas_by_region df =
        Inr (df\<lparr>rows := filter
          (\<lambda>r. \<exists>a b. cell_of r ''latitude'' = Num (Fin a) \<and> cell_of r ''longitude'' = Num (Fin b) \<and>
             ((-5.0 \<le> a \<and> a \<le> 5.0 \<and> -75.0 \<le> b \<and> b \<le> -60.0) \<or>
              (-18.0 \<le> a \<and> a \<le> -5.0 \<and> -75.0 \<le> b \<and> b \<le> -34.0)))
          (rows df)\<rparr>)) \<and>
   filter_usinas_by_region
     \<lparr>columns = [''latitude'', ''longitude''],
      rows = [[''latitude'' \<mapsto> Num (Fin 5.0), ''longitude'' \<mapsto> Num (Fin (-60.0))]]\<rparr> =
     Inr \<lparr>columns = [''latitude'', ''longitude''],
          rows = [[''latitude'' \<mapsto> Num (Fin 5.0), ''longitude'' \<mapsto> Num (Fin (-60.0))]]\<rparr> \<and>
   filter_usinas_by_region
     \<lparr>columns = [''latitude'', ''longitude''],
      rows = [[''latitude'' \<mapsto> Num (Fin 5.0001), ''longitude'' \<mapsto> Num lon]]\<rparr> =
     Inr \<lparr>columns = [''latitude'', ''longitude''], rows = []\<rparr>"
proof (intro conjI impI)
  assume "numeric_coords df"
  then have "filter_usinas_by_region df = Inr (df\<lparr>rows := filter in_region (rows df)\<rparr>)"
    by (rule filter_numeric)
  also have "in_region =
      (\<lambda>r. \<exists>a b. cell_of r ''latitude'' = Num (Fin a) \<and> cell_of r ''longitude'' = Num (Fin b) \<and>
             ((-5.0 \<le> a \<and> a \<le> 5.0 \<and> -75.0 \<le> b \<and> b \<le> -60.0) \<or>
              (-18.0 \<le> a \<and> a \<le> -5.0 \<and> -75.0 \<le> b \<and> b \<le> -34.0)))"
    by (rule ext) (simp add: in_region_finite)
  finally show "filter_usinas_by_region df =
        Inr (df\<lparr>rows := filter
          (\<lambda>r. \<exists>a b. cell_of r ''latitude'' = Num (Fin a) \<and> cell_of r ''longitude'' = Num (Fin b) \<and>
             ((-5.0 \<le> a \<and> a \<le> 5.0 \<and> -75.0 \<le> b \<and> b \<le> -60.0) \<or>
              (-18.0 \<le> a \<and> a \<le> -5.0 \<and> -75.0 \<le> b \<and> b \<le> -34.0)))
          (rows df)\<rparr>)" .
next
  let ?df = "\<lparr>columns = [''latitude'', ''longitude''],
      rows = [[''latitude'' \<mapsto> Num (Fin 5.0), ''longitude'' \<mapsto> Num (Fin (-60.0))]]\<rparr>"
  have "numeric_coords ?df" by (simp add: numeric_coords_def cell_of_def)
  from filter_numeric [OF this] show "filter_usinas_by_region ?df = Inr ?df"
    by (simp add: in_region_def cell_of_def)
next
  let ?df = "\<lparr>columns = [''latitude'', ''longitude''],
      rows = [[''latitude'' \<mapsto> Num (Fin 5.0001), ''longitude'' \<mapsto> Num lon]]\<rparr>"
  have "numeric_coords ?df" by (simp add: numeric_coords_def cell_of_def)
  from filter_numeric [OF this]
  show "filter_usinas_by_region ?df = Inr \<lparr>columns = [''latitude'', ''longitude''], rows = []\<rparr>"
    by (simp add: in_region_def cell_of_def)
qed

text \<open>
  The filter at a plant list of three rows: (-2, -65) lies in the North box, (10, -65) in
  neither box, (-10, -40) in the Northeast box.
\<close>

theorem filter_usinas_by_region_boxes_witness:
  "numeric_coords
     \<lparr>columns = [''latitude'', ''longitude''],
      rows = [[''latitude'' \<mapsto> Num (Fin (-2)), ''longitude'' \<mapsto> Num (Fin (-65))],
              [''latitude'' \<mapsto> Num (Fin 10), ''longitude'' \<mapsto> Num (Fin (-65))],
              [''latitude'' \<mapsto> Num (Fin (-10)), ''longitude'' \<mapsto> Num (Fin (-40))]]\<rparr> \<and>
   filter_usinas_by_region
     \<lparr>columns = [''latitude'', ''longitude''],
      rows = [[''latitude'' \<mapsto> Num (Fin (-2)), ''longitude'' \<mapsto> Num (Fin (-65))],
              [''latitude'' \<mapsto> Num (Fin 10), ''longitude'' \<mapsto> Num (Fin (-65))],
              [''latitude'' \<mapsto> Num (Fin (-10)), ''longitude'' \<mapsto> Num (Fin (-40))]]\<rparr> =
   Inr \<lparr>columns = [''latitude'', ''longitude''],
        rows = [[''latitude'' \<mapsto> Num (Fin (-2)), ''longitude'' \<mapsto> Num (Fin (-65))],
                [''latitude'' \<mapsto> Num (Fin (-10)), ''longitude'' \<mapsto> Num (Fin (-40))]]\<rparr>"
proof -
  let ?df = "\<lparr>columns = [''latitude'', ''longitude''],
      rows = [[''latitude'' \<mapsto> Num (Fin (-2)), ''longitude'' \<mapsto> Num (Fin (-65))],
              [''latitude'' \<mapsto> Num (Fin 10), ''longitude'' \<mapsto> Num (Fin (-65))],
              [''latitude'' \<mapsto> Num (Fin (-10)), ''longitude'' \<mapsto> Num (Fin (-40))]]\<rparr>"
  have h: "numeric_coords ?df" by (simp add: numeric_coords_def cell_of_def)
  from filter_usinas_by_region_boxes [of ?df] h show ?thesis
    by (simp add: cell_of_def)
qed

text \<open>
  Claim C7. The Regional Filter is idempotent: whenever it returns a frame, filtering
  that frame again returns the same frame, with the same rows in the same order.
\<close>

theorem filter_usinas_by_region_idempotent:
  assumes "filter_usinas_by_region df = Inr out"
  shows "filter_usinas_by_region out = Inr out"
proof -
  have n: "numeric_coords df" using assms by (rule filter_Inr_numeric)
  with assms have out: "out = df\<lparr>rows := filter in_region (rows df)\<rparr>"
    by (simp add: filter_numeric)
  have "numeric_coords out"
    using n by (auto simp: out numeric_coords_def list_all_iff)
  then have "filter_usinas_by_region out = Inr (out\<lparr>rows := filter in_region (rows out)\<rparr>)"
    by (rule filter_numeric)
  then show ?thesis by (simp add: out)
qed

theorem filter_usinas_by_region_idempotent_witness:
  "filter_usinas_by_region
     \<lparr>columns = [''latitude'', ''longitude''],
      rows = [[''latitude'' \<mapsto> Num (Fin (-2)), ''longitude'' \<mapsto> Num (Fin (-65))],
              [''latitude'' \<mapsto> Num (Fin 10), ''longitude'' \<mapsto> Num (Fin (-65))]]\<rparr> =
   Inr \<lparr>columns = [''latitude'', ''longitude''],
        rows = [[''latitude'' \<mapsto> Num (Fin (-2)), ''longitude'' \<mapsto> Num (Fin (-65))]]\<rparr> \<and>
   filter_usinas_by_region
     \<lparr>columns = [''latitude'', ''longitude''],
      rows = [[''latitude'' \<mapsto> Num (Fin (-2)), ''longitude'' \<mapsto> Num (Fin (-65))]]\<rparr> =
   Inr \<lparr>columns = [''latitude'', ''longitude''],
        rows = [[''latitude'' \<mapsto> Num (Fin (-2)), ''longitude'' \<mapsto> Num (Fin (-65))]]\<rparr>"
proof -
  let ?df = "\<lparr>columns = [''latitude'', ''longitude''],
      rows = [[''latitude'' \<mapsto> Num (Fin (-2)), ''longitude'' \<mapsto> Num (Fin (-65))],
              [''latitude'' \<mapsto> Num (Fin 10), ''longitude'' \<mapsto> Num (Fin (-65))]]\<rparr>"
  have "numeric_coords ?df" by (simp add: numeric_coords_def cell_of_def)
  from filter_numeric [OF this]
  have h: "filter_usinas_by_region ?df =
     Inr \<lparr>columns = [''latitude'', ''longitude''],
        rows = [[''latitude'' \<mapsto> Num (Fin (-2)), ''longitude'' \<mapsto> Num (Fin (-65))]]\<rparr>"
    by (simp add: in_region_def cell_of_def)
  from h filter_usinas_by_region_idempotent [OF h] show ?thesis by simp
qed
section \<open>Properties of the Remote Fetcher and of the registry loader\<close>

lemma requests_made_record_event:
  "requests_made (record_event e w) = requests_made w + (if is_HttpGet e then 1 else 0)"
  by (simp add: requests_made_def record_event_def)

lemma requests_made_log_append:
  "requests_made (w\<lparr>log := log w @ es\<rparr>) = requests_made w + length (filter is_HttpGet es)"
  by (simp add: requests_made_def)

lemma fetch_aneel_body_env:
  "\<exists>r es. fetch_aneel_body w = (r, w\<lparr>log := log w @ es\<rparr>) \<and>
          length (filter is_HttpGet es) = 1 \<and> \<not> list_ex is_WriteParquet es \<and>
          (\<forall>w'. endpoint w' = endpoint w \<and> requests_made w' = requests_made w \<longrightarrow>
                fetch_aneel_body w' = (r, w'\<lparr>log := log w' @ es\<rparr>))"
proof (cases "endpoint w (requests_made w)")
  case (Returns df)
  then show ?thesis
    by (intro exI [of _ "Inr df"] exI [of _ "[HttpGet ANEEL_URL [(''sql'', ANEEL_QUERY)]]"])
      (simp add: fetch_aneel_body_def record_event_def)
next
  case (Raises e)
  show ?thesis
  proof (cases "\<exists>m. e = RequestException m")
    case True
    then obtain m where "e = RequestException m" ..
    with Raises show ?thesis
      by (intro exI [of _ "Inr empty_frame"]
          exI [of _ "[HttpGet ANEEL_URL [(''sql'', ANEEL_QUERY)], StError (''Erro na API ANEEL: '' @ m)]"])
        (simp add: fetch_aneel_body_def record_event_def st_error_def)
  next
    case False
    with Raises show ?thesis
      by (intro exI [of _ "Inl e"] exI [of _ "[HttpGet ANEEL_URL [(''sql'', ANEEL_QUERY)]]"])
        (cases e; simp add: fetch_aneel_body_def record_event_def)
  qed
qed

lemma retry_env:
  "\<exists>r es. retry n fetch_aneel_body k w = (r, w\<lparr>log := log w @ es\<rparr>) \<and>
          \<not> list_ex is_WriteParquet es \<and>
          (\<forall>w'. endpoint w' = endpoint w \<and> requests_made w' = requests_made w \<longrightarrow>
                retry n fetch_aneel_body k w' = (r, w'\<lparr>log := log w' @ es\<rparr>))"
proof (induction "n - k" arbitrary: k w)
  case 0
  obtain r es where b: "fetch_aneel_body w = (r, w\<lparr>log := log w @ es\<rparr>)"
    and nw: "\<not> list_ex is_WriteParquet es"
    and b': "\<And>w'. endpoint w' = endpoint w \<Longrightarrow> requests_made w' = requests_made w \<Longrightarrow>
                fetch_aneel_body w' = (r, w'\<lparr>log := log w' @ es\<rparr>)"
    using fetch_aneel_body_env [of w] by blast
  from 0 have kn: "k \<ge> n" by simp
  show ?case
  proof (cases r)
    case (Inl e)
    with b b' kn nw show ?thesis
      by (intro exI [of _ "Inl RetryError"] exI [of _ es]) (simp add: retry.simps [of n _ k])
  next
    case (Inr x)
    with b b' kn nw show ?thesis
      by (intro exI [of _ "Inr x"] exI [of _ es]) (simp add: retry.simps [of n _ k])
  qed
next
  case (Suc d)
  obtain r es where b: "fetch_aneel_body w = (r, w\<lparr>log := log w @ es\<rparr>)"
    and nw: "\<not> list_ex is_WriteParquet es"
    and one: "length (filter is_HttpGet es) = 1"
    and b': "\<And>w'. endpoint w' = endpoint w \<Longrightarrow> requests_made w' = requests_made w \<Longrightarrow>
                fetch_aneel_body w' = (r, w'\<lparr>log := log w' @ es\<rparr>)"
    using fetch_aneel_body_env [of w] by blast
  from Suc have kn: "\<not> k \<ge> n" and d: "d = n - Suc k" by simp_all
  show ?case
  proof (cases r)
    case (Inr x)
    with b b' nw show ?thesis
      by (intro exI [of _ "Inr x"] exI [of _ es]) (simp add: retry.simps [of n _ k])
  next
    case (Inl e)
    let ?w1 = "w\<lparr>log := log w @ es\<rparr>"
    obtain r2 es2 where r2: "retry n fetch_aneel_body (Suc k) ?w1 = (r2, ?w1\<lparr>log := log ?w1 @ es2\<rparr>)"
      and nw2: "\<not> list_ex is_WriteParquet es2"
      and r2': "\<And>w'. endpoint w' = endpoint ?w1 \<Longrightarrow> requests_made w' = requests_made ?w1 \<Longrightarrow>
                retry n fetch_aneel_body (Suc k) w' = (r2, w'\<lparr>log := log w' @ es2\<rparr>)"
      using Suc.hyps(1) [OF d, of ?w1] by blast
    show ?thesis
    proof (intro exI [of _ r2] exI [of _ "es @ es2"] conjI allI impI)
      show "retry n fetch_aneel_body k w = (r2, w\<lparr>log := log w @ es @ es2\<rparr>)"
        using b Inl kn r2 by (simp add: retry.simps [of n _ k w])
      show "\<not> list_ex is_WriteParquet (es @ es2)" using nw nw2 by simp
      fix w' assume a: "endpoint w' = endpoint w \<and> requests_made w' = requests_made w"
      let ?w1' = "w'\<lparr>log := log w' @ es\<rparr>"
      have "retry n fetch_aneel_body (Suc k) ?w1' = (r2, ?w1'\<lparr>log := log ?w1' @ es2\<rparr>)"
        using a by (intro r2') (simp_all add: requests_made_log_append)
      then show "retry n fetch_aneel_body k w' = (r2, w'\<lparr>log := log w' @ es @ es2\<rparr>)"
        using b' [of w'] a Inl kn by (simp add: retry.simps [of n _ k w'])
    qed
  qed
qed

lemma fetch_aneel_env:
  "\<exists>r es. fetch_aneel w = (r, w\<lparr>log := log w @ es\<rparr>) \<and>
          \<not> list_ex is_WriteParquet es \<and>
          (\<forall>w'. endpoint w' = endpoint w \<and> requests_made w' = requests_made w \<longrightarrow>
                fetch_aneel w' = (r, w'\<lparr>log := log w' @ es\<rparr>))"
  unfolding fetch_aneel_def by (rule retry_env)

lemma load_aneel_hit:
  assumes "files w ANEEL_CACHE = Some (Parquet df)"
  shows "load_aneel_data parse w = (Inr df, record_event (ReadParquet ANEEL_CACHE) w)"
  using assms by (simp add: load_aneel_data_def path_exists_def read_parquet_def)

lemma load_aneel_miss:
  assumes "\<forall>c. files w ANEEL_CACHE \<noteq> Some (Parquet c)"
  shows "\<exists>es0. \<not> list_ex is_HttpGet es0 \<and> \<not> list_ex is_WriteParquet es0 \<and>
     load_aneel_data parse w =
       (case fetch_aneel (w\<lparr>log := log w @ es0\<rparr>) of
          (Inl e, w2) \<Rightarrow> (Inl e, w2)
        | (Inr df, w2) \<Rightarrow>
            if \<not> empty df
            then (case fst (process_coordinates parse (records_dtype df) df) of
                    Inl e \<Rightarrow> (Inl e, w2)
                  | Inr df' \<Rightarrow>
                      (case to_parquet ANEEL_CACHE df' w2 of
                         (Inl e, w3) \<Rightarrow> (Inl e, w3)
                       | (Inr u, w3) \<Rightarrow> (Inr df', w3)))
            else (Inr df, st_error aneel_empty_msg w2))"
proof (cases "files w ANEEL_CACHE")
  case None
  then show ?thesis
    by (intro exI [of _ "[]"]) (simp add: load_aneel_data_def path_exists_def)
next
  case (Some f)
  with assms have nf: "\<And>c. f \<noteq> Parquet c" by auto
  obtain e where e: "fst (read_parquet ANEEL_CACHE w) = Inl e"
    using Some nf by (cases f) (auto simp: read_parquet_def)
  have s: "snd (read_parquet ANEEL_CACHE w) = record_event (ReadParquet ANEEL_CACHE) w"
    by (simp add: read_parquet_def)
  have rp: "read_parquet ANEEL_CACHE w = (Inl e, record_event (ReadParquet ANEEL_CACHE) w)"
    using e s by (metis prod.collapse)
  show ?thesis
    by (intro exI [of _ "[ReadParquet ANEEL_CACHE, StWarning (cache_invalid_msg @ str_exn e)]"])
      (simp add: load_aneel_data_def path_exists_def Some rp st_warning_def record_event_def)
qed

lemma load_aneel_miss_fetch:
  assumes miss: "\<forall>c. files w ANEEL_CACHE \<noteq> Some (Parquet c)"
  shows "\<exists>r es0 es. fetch_aneel w = (r, w\<lparr>log := log w @ es\<rparr>) \<and>
     \<not> list_ex is_HttpGet es0 \<and> \<not> list_ex is_WriteParquet es0 \<and> \<not> list_ex is_WriteParquet es \<and>
     load_aneel_data parse w =
       (case r of
          Inl e \<Rightarrow> (Inl e, w\<lparr>log := log w @ es0 @ es\<rparr>)
        | Inr df \<Rightarrow>
            if \<not> empty df
            then (case fst (process_coordinates parse (records_dtype df) df) of
                    Inl e \<Rightarrow> (Inl e, w\<lparr>log := log w @ es0 @ es\<rparr>)
                  | Inr df' \<Rightarrow>
                      if writable w ANEEL_CACHE df'
                      then (Inr df', w\<lparr>files := (files w)(ANEEL_CACHE \<mapsto> Parquet df'),
                                       log := log w @ es0 @ es @ [WriteParquet ANEEL_CACHE]\<rparr>)
                      else (Inl (OtherError ''Cannot write the Parquet file''), w\<lparr>log := log w @ es0 @ es\<rparr>))
            else (Inr df, w\<lparr>log := log w @ es0 @ es @ [StError aneel_empty_msg]\<rparr>))"
proof -
  from load_aneel_miss [OF miss, of parse] obtain es0 where
    h0: "\<not> list_ex is_HttpGet es0" and w0: "\<not> list_ex is_WriteParquet es0" and
    L: "load_aneel_data parse w =
       (case fetch_aneel (w\<lparr>log := log w @ es0\<rparr>) of
          (Inl e, w2) \<Rightarrow> (Inl e, w2)
        | (Inr df, w2) \<Rightarrow>
            if \<not> empty df
            then (case fst (process_coordinates parse (records_dtype df) df) of
                    Inl e \<Rightarrow> (Inl e, w2)
                  | Inr df' \<Rightarrow>
                      (case to_parquet ANEEL_CACHE df' w2 of
                         (Inl e, w3) \<Rightarrow> (Inl e, w3)
                       | (Inr u, w3) \<Rightarrow> (Inr df', w3)))
            else (Inr df, st_error aneel_empty_msg w2))"
    by blast
  from fetch_aneel_env [of w] obtain r es where
    f: "fetch_aneel w = (r, w\<lparr>log := log w @ es\<rparr>)" and nw: "\<not> list_ex is_WriteParquet es" and
    f': "\<And>w'. endpoint w' = endpoint w \<Longrightarrow> requests_made w' = requests_made w \<Longrightarrow>
            fetch_aneel w' = (r, w'\<lparr>log := log w' @ es\<rparr>)"
    by blast
  have "length (filter is_HttpGet es0) = 0"
    using h0 by (simp add: list_ex_iff filter_empty_conv)
  then have "requests_made (w\<lparr>log := log w @ es0\<rparr>) = requests_made w"
    by (simp add: requests_made_log_append)
  then have f1: "fetch_aneel (w\<lparr>log := log w @ es0\<rparr>) = (r, w\<lparr>log := log w @ es0 @ es\<rparr>)"
    using f' [of "w\<lparr>log := log w @ es0\<rparr>"] by simp
  show ?thesis
    apply (rule exI [of _ r], rule exI [of _ es0], rule exI [of _ es])
    apply (intro conjI f h0 w0 nw)
    apply (simp add: L f1 to_parquet_def st_error_def record_event_def
        split: sum.splits)
    done
qed



text \<open>
  The decorator does retry an exception that leaves the body: when every request raises
  an exception that is not a \<^verbatim>\<open>RequestException\<close>, three requests are sent and
  \<^verbatim>\<open>RetryError\<close> is raised.
\<close>

lemma fetch_aneel_retries_other_exceptions:
  assumes "\<forall>k. endpoint w k = Raises (OtherError m)"
  shows "fst (fetch_aneel w) = Inl RetryError \<and>
         requests_made (snd (fetch_aneel w)) = requests_made w + 3"
proof -
  have b: "fetch_aneel_body v =
      (Inl (OtherError m), record_event (HttpGet ANEEL_URL [(''sql'', ANEEL_QUERY)]) v)"
    if "endpoint v = endpoint w" for v
    using assms that by (simp add: fetch_aneel_body_def)
  have e: "endpoint (record_event x v) = endpoint v" for x v
    by (simp add: record_event_def)
  show ?thesis
    by (simp add: fetch_aneel_def retry.simps [of 3] b e requests_made_record_event)
qed

text \<open>
  Claim C1 says that \<^verbatim>\<open>fetch_aneel\<close> sends three requests when the first two fail at the
  network layer, and three when all fail. The body of \<^verbatim>\<open>fetch_aneel\<close> catches
  \<^verbatim>\<open>RequestException\<close> itself and returns an empty frame, so the retry decorator sees a
  call that returned and stops: whenever the next request fails at the network layer,
  \<^verbatim>\<open>fetch_aneel\<close> returns the empty frame after exactly one request, whatever the endpoint
  would have answered afterwards.
\<close>

theorem fetch_aneel_single_attempt:
  assumes "endpoint w (requests_made w) = Raises (RequestException m)"
  shows "fst (fetch_aneel w) = Inr empty_frame \<and>
         requests_made (snd (fetch_aneel w)) = requests_made w + 1"
  using assms
  by (simp add: fetch_aneel_def retry.simps fetch_aneel_body_def st_error_def
      requests_made_record_event)

text \<open>
  An endpoint that refuses the first two requests and would answer the third: the fetcher
  returns the empty frame and has sent one request.
\<close>

theorem fetch_aneel_single_attempt_witness:
  "endpoint world_flaky (requests_made world_flaky) = Raises (RequestException ''Connection refused'') \<and>
   endpoint world_flaky 1 = Raises (RequestException ''Connection refused'') \<and>
   endpoint world_flaky 2 = Returns aneel_records \<and>
   fst (fetch_aneel world_flaky) = Inr empty_frame \<and>
   requests_made world_flaky = 0 \<and>
   requests_made (snd (fetch_aneel world_flaky)) = 1"
proof -
  have r: "requests_made world_flaky = 0" by (simp add: requests_made_def world_flaky_def)
  have h: "endpoint world_flaky (requests_made world_flaky) = Raises (RequestException ''Connection refused'')"
    by (simp add: r) (simp add: world_flaky_def)
  from fetch_aneel_single_attempt [OF h] r h show ?thesis
    by (simp add: world_flaky_def)
qed

text \<open>
  Claim C2. \<^verbatim>\<open>load_aneel_data\<close>: when the snapshot file deserializes, its frame is
  returned, no request is sent and no file changes. When the file is absent or does not
  deserialize, nothing is raised for that: the loader fetches; a non-empty fetched frame
  is normalized by \<^verbatim>\<open>process_coordinates\<close> and, where the write of the normalized frame to
  the snapshot path succeeds, written to the snapshot file and returned;
  for an empty fetched frame the loader shows the error message, returns the empty frame
  and leaves the files as they are.
\<close>

theorem load_aneel_data_cases:
  "(files w ANEEL_CACHE = Some (Parquet cached) \<longrightarrow>
      fst (load_aneel_data parse w) = Inr cached \<and>
      requests_made (snd (load_aneel_data parse w)) = requests_made w \<and>
      files (snd (load_aneel_data parse w)) = files w) \<and>
   ((\<forall>c. files w ANEEL_CACHE \<noteq> Some (Parquet c)) \<and> fst (fetch_aneel w) = Inr df \<longrightarrow>
      (\<not> empty df \<and> fst (process_coordinates parse (records_dtype df) df) = Inr df' \<and>
       writable w ANEEL_CACHE df' \<longrightarrow>
         fst (load_aneel_data parse w) = Inr df' \<and>
         files (snd (load_aneel_data parse w)) = (files w)(ANEEL_CACHE \<mapsto> Parquet df') \<and>
         requests_made (snd (load_aneel_data parse w)) = requests_made (snd (fetch_aneel w))) \<and>
      (empty df \<longrightarrow>
         fst (load_aneel_data parse w) = Inr df \<and>
         last (log (snd (load_aneel_data parse w))) = StError aneel_empty_msg \<and>
         files (snd (load_aneel_data parse w)) = files w))"
proof (intro conjI impI; (elim conjE)?)
  assume "files w ANEEL_CACHE = Some (Parquet cached)"
  then have L: "load_aneel_data parse w = (Inr cached, record_event (ReadParquet ANEEL_CACHE) w)"
    by (rule load_aneel_hit)
  show "fst (load_aneel_data parse w) = Inr cached" by (simp add: L)
  show "requests_made (snd (load_aneel_data parse w)) = requests_made w"
    by (simp add: L requests_made_record_event)
  show "files (snd (load_aneel_data parse w)) = files w" by (simp add: L record_event_def)
next
  assume miss: "\<forall>c. files w ANEEL_CACHE \<noteq> Some (Parquet c)" and f: "fst (fetch_aneel w) = Inr df"
  from load_aneel_miss_fetch [OF miss, of parse] obtain r es0 es where
    fw: "fetch_aneel w = (r, w\<lparr>log := log w @ es\<rparr>)" and h0: "\<not> list_ex is_HttpGet es0" and
    L: "load_aneel_data parse w =
       (case r of
          Inl e \<Rightarrow> (Inl e, w\<lparr>log := log w @ es0 @ es\<rparr>)
        | Inr df \<Rightarrow>
            if \<not> empty df
            then (case fst (process_coordinates parse (records_dtype df) df) of
                    Inl e \<Rightarrow> (Inl e, w\<lparr>log := log w @ es0 @ es\<rparr>)
                  | Inr df' \<Rightarrow>
                      if writable w ANEEL_CACHE df'
                      then (Inr df', w\<lparr>files := (files w)(ANEEL_CACHE \<mapsto> Parquet df'),
                                       log := log w @ es0 @ es @ [WriteParquet ANEEL_CACHE]\<rparr>)
                      else (Inl (OtherError ''Cannot write the Parquet file''), w\<lparr>log := log w @ es0 @ es\<rparr>))
            else (Inr df, w\<lparr>log := log w @ es0 @ es @ [StError aneel_empty_msg]\<rparr>))"
    by blast
  from f fw have r: "r = Inr df" by simp
  have z: "filter is_HttpGet es0 = []" using h0 by (simp add: list_ex_iff filter_empty_conv)
  {
    assume "\<not> empty df" "fst (process_coordinates parse (records_dtype df) df) = Inr df'"
      "writable w ANEEL_CACHE df'"
    then have L': "load_aneel_data parse w =
        (Inr df', w\<lparr>files := (files w)(ANEEL_CACHE \<mapsto> Parquet df'),
                    log := log w @ es0 @ es @ [WriteParquet ANEEL_CACHE]\<rparr>)"
      by (simp add: L r)
    show "fst (load_aneel_data parse w) = Inr df'" by (simp add: L')
    show "files (snd (load_aneel_data parse w)) = (files w)(ANEEL_CACHE \<mapsto> Parquet df')"
      by (simp add: L')
    show "requests_made (snd (load_aneel_data parse w)) = requests_made (snd (fetch_aneel w))"
      by (simp add: L' fw requests_made_def z)
  }
  {
    assume "empty df"
    then have L': "load_aneel_data parse w =
        (Inr df, w\<lparr>log := log w @ es0 @ es @ [StError aneel_empty_msg]\<rparr>)"
      by (simp add: L r)
    show "fst (load_aneel_data parse w) = Inr df" by (simp add: L')
    show "last (log (snd (load_aneel_data parse w))) = StError aneel_empty_msg" by (simp add: L')
    show "files (snd (load_aneel_data parse w)) = files w" by (simp add: L')
  }
qed



text \<open>
  The three cases at a state with a good snapshot, at one with a corrupt snapshot and an
  endpoint that answers, and at one with a corrupt snapshot and no network.
\<close>

theorem load_aneel_data_cases_witness:
  "(files world_cached ANEEL_CACHE = Some (Parquet aneel_normalized) \<and>
    fst (load_aneel_data example_parse world_cached) = Inr aneel_normalized \<and>
    requests_made (snd (load_aneel_data example_parse world_cached)) = 0) \<and>
   (files world_corrupt_cache ANEEL_CACHE = Some Unreadable \<and>
    fst (fetch_aneel world_corrupt_cache) = Inr aneel_records \<and>
    \<not> empty aneel_records \<and>
    fst (process_coordinates example_parse (records_dtype aneel_records) aneel_records) = Inr aneel_normalized \<and>
    writable world_corrupt_cache ANEEL_CACHE aneel_normalized \<and>
    fst (load_aneel_data example_parse world_corrupt_cache) = Inr aneel_normalized \<and>
    files (snd (load_aneel_data example_parse world_corrupt_cache)) ANEEL_CACHE =
      Some (Parquet aneel_normalized)) \<and>
   (files world_offline ANEEL_CACHE = Some Unreadable \<and>
    fst (fetch_aneel world_offline) = Inr empty_frame \<and>
    empty empty_frame \<and>
    fst (load_aneel_data example_parse world_offline) = Inr empty_frame \<and>
    last (log (snd (load_aneel_data example_parse world_offline))) = StError aneel_empty_msg \<and>
    files (snd (load_aneel_data example_parse world_offline)) ANEEL_CACHE = Some Unreadable)"
proof (intro conjI)
  have c: "files world_cached ANEEL_CACHE = Some (Parquet aneel_normalized)"
    by (simp add: world_cached_def)
  have r0: "requests_made world_cached = 0" by (simp add: world_cached_def requests_made_def)
  note hit = load_aneel_data_cases [of world_cached aneel_normalized example_parse]
  show "files world_cached ANEEL_CACHE = Some (Parquet aneel_normalized)" by (rule c)
  show "fst (load_aneel_data example_parse world_cached) = Inr aneel_normalized"
    using hit c by simp
  show "requests_made (snd (load_aneel_data example_parse world_cached)) = 0"
    using hit c r0 by simp
next
  have m: "files world_corrupt_cache ANEEL_CACHE = Some Unreadable"
    by (simp add: world_corrupt_cache_def)
  have f: "fst (fetch_aneel world_corrupt_cache) = Inr aneel_records"
    by (simp add: fetch_aneel_def retry.simps fetch_aneel_body_def world_corrupt_cache_def
      record_event_def requests_made_def)
  have ne: "\<not> empty aneel_records" by (simp add: empty_def aneel_records_def)
  have p: "fst (process_coordinates example_parse (records_dtype aneel_records) aneel_records) = Inr aneel_normalized"
    by (simp add: process_coordinates_def coord_column_def aneel_records_def aneel_normalized_def
      str_accessor_ok_def records_dtype_def column_cells_def cell_of_def set_column_def
      with_column_def dropna_def
      example_parse_def str_replace_def Let_def)
  have wr: "writable world_corrupt_cache ANEEL_CACHE aneel_normalized"
    by (simp add: world_corrupt_cache_def serializable_def aneel_normalized_def column_cells_def
        cell_of_def)
  note miss = load_aneel_data_cases
    [of world_corrupt_cache _ example_parse aneel_records aneel_normalized]
  show "files world_corrupt_cache ANEEL_CACHE = Some Unreadable" by (rule m)
  show "fst (fetch_aneel world_corrupt_cache) = Inr aneel_records" by (rule f)
  show "\<not> empty aneel_records" by (rule ne)
  show "fst (process_coordinates example_parse (records_dtype aneel_records) aneel_records) = Inr aneel_normalized" by (rule p)
  show "writable world_corrupt_cache ANEEL_CACHE aneel_normalized" by (rule wr)
  show "fst (load_aneel_data example_parse world_corrupt_cache) = Inr aneel_normalized"
    using miss m f ne p wr by simp
  show "files (snd (load_aneel_data example_parse world_corrupt_cache)) ANEEL_CACHE =
      Some (Parquet aneel_normalized)"
    using miss m f ne p wr by simp
next
  have m: "files world_offline ANEEL_CACHE = Some Unreadable"
    by (simp add: world_offline_def)
  have f: "fst (fetch_aneel world_offline) = Inr empty_frame"
    by (simp add: fetch_aneel_def retry.simps fetch_aneel_body_def world_offline_def
      record_event_def requests_made_def st_error_def)
  have e: "empty empty_frame" by (simp add: empty_def empty_frame_def)
  note miss = load_aneel_data_cases [of world_offline _ example_parse empty_frame]
  show "files world_offline ANEEL_CACHE = Some Unreadable" by (rule m)
  show "fst (fetch_aneel world_offline) = Inr empty_frame" by (rule f)
  show "empty empty_frame" by (rule e)
  show "fst (load_aneel_data example_parse world_offline) = Inr empty_frame"
    using miss m f e by simp
  show "last (log (snd (load_aneel_data example_parse world_offline))) = StError aneel_empty_msg"
    using miss m f e by simp
  show "files (snd (load_aneel_data example_parse world_offline)) ANEEL_CACHE = Some Unreadable"
    using miss m f e by simp
qed

text \<open>
  Where the write is refused, as for a fetched frame whose name column mixes a string and
  a number, the loader raises and no file changes.
\<close>

lemma load_aneel_data_write_refused:
  assumes "\<forall>c. files w ANEEL_CACHE \<noteq> Some (Parquet c)" and "fst (fetch_aneel w) = Inr df"
    and "\<not> empty df" and "fst (process_coordinates parse (records_dtype df) df) = Inr df'"
    and "\<not> writable w ANEEL_CACHE df'"
  shows "fst (load_aneel_data parse w) = Inl (OtherError ''Cannot write the Parquet file'') \<and>
         files (snd (load_aneel_data parse w)) = files w"
proof -
  from load_aneel_miss_fetch [OF assms(1), of parse] obtain r es0 es where
    fw: "fetch_aneel w = (r, w\<lparr>log := log w @ es\<rparr>)" and
    L: "load_aneel_data parse w =
       (case r of
          Inl e \<Rightarrow> (Inl e, w\<lparr>log := log w @ es0 @ es\<rparr>)
        | Inr df \<Rightarrow>
            if \<not> empty df
            then (case fst (process_coordinates parse (records_dtype df) df) of
                    Inl e \<Rightarrow> (Inl e, w\<lparr>log := log w @ es0 @ es\<rparr>)
                  | Inr df' \<Rightarrow>
                      if writable w ANEEL_CACHE df'
                      then (Inr df', w\<lparr>files := (files w)(ANEEL_CACHE \<mapsto> Parquet df'),
                                       log := log w @ es0 @ es @ [WriteParquet ANEEL_CACHE]\<rparr>)
                      else (Inl (OtherError ''Cannot write the Parquet file''), w\<lparr>log := log w @ es0 @ es\<rparr>))
            else (Inr df, w\<lparr>log := log w @ es0 @ es @ [StError aneel_empty_msg]\<rparr>))"
    by blast
  from assms(2) fw have "r = Inr df" by simp
  with assms(3-5) show ?thesis by (simp add: L)
qed

lemma load_aneel_data_mixed_records:
  "\<not> serializable aneel_records_mixed \<and>
   fst (load_aneel_data example_parse world_mixed_records) =
     Inl (OtherError ''Cannot write the Parquet file'') \<and>
   files (snd (load_aneel_data example_parse world_mixed_records)) = Map.empty"
proof -
  let ?out = "\<lparr>columns = [''NomMunicipio'', ''lat_str'', ''lng_str'', ''latitude'', ''longitude''],
      rows = [[''NomMunicipio'' \<mapsto> Str ''Belem'', ''lat_str'' \<mapsto> Str ''-1,45'', ''lng_str'' \<mapsto> Str ''-48,50'',
               ''latitude'' \<mapsto> Num (Fin (-1.45)), ''longitude'' \<mapsto> Num (Fin (-48.5))],
              [''NomMunicipio'' \<mapsto> Num (Fin 7), ''lat_str'' \<mapsto> Str ''-1,45'', ''lng_str'' \<mapsto> Str ''-48,50'',
               ''latitude'' \<mapsto> Num (Fin (-1.45)), ''longitude'' \<mapsto> Num (Fin (-48.5))]]\<rparr>"
  have m: "\<forall>c. files world_mixed_records ANEEL_CACHE \<noteq> Some (Parquet c)"
    by (simp add: world_mixed_records_def)
  have f: "fst (fetch_aneel world_mixed_records) = Inr aneel_records_mixed"
    by (simp add: fetch_aneel_def retry.simps fetch_aneel_body_def world_mixed_records_def
      record_event_def requests_made_def)
  have ne: "\<not> empty aneel_records_mixed" by (simp add: empty_def aneel_records_mixed_def)
  have p: "fst (process_coordinates example_parse (records_dtype aneel_records_mixed)
                  aneel_records_mixed) = Inr ?out"
    by (simp add: process_coordinates_def coord_column_def aneel_records_mixed_def
      str_accessor_ok_def records_dtype_def column_cells_def cell_of_def set_column_def
      with_column_def dropna_def example_parse_def str_replace_def Let_def)
  have s0: "\<not> serializable aneel_records_mixed"
    by (simp add: serializable_def aneel_records_mixed_def column_cells_def cell_of_def)
  have s1: "\<not> writable world_mixed_records ANEEL_CACHE ?out"
    by (simp add: world_mixed_records_def serializable_def column_cells_def cell_of_def)
  from load_aneel_data_write_refused [OF m f ne p s1] s0 show ?thesis
    by (simp add: world_mixed_records_def)
qed

text \<open>
  Claim C10. \<^verbatim>\<open>load_aneel_data\<close> changes a file or writes a snapshot only when the
  snapshot was missed and the fetch returned a non-empty frame. When the fetch returns an
  empty frame, and in particular when the request fails at the network layer, the files
  are unchanged, no snapshot is written and the empty frame is returned.
\<close>

theorem load_aneel_data_writes_only_nonempty:
  "((files (snd (load_aneel_data parse w)) \<noteq> files w \<or>
     filter is_WriteParquet (log (snd (load_aneel_data parse w))) \<noteq> filter is_WriteParquet (log w)) \<longrightarrow>
      (\<forall>c. files w ANEEL_CACHE \<noteq> Some (Parquet c)) \<and>
      (\<exists>df. fst (fetch_aneel w) = Inr df \<and> \<not> empty df)) \<and>
   ((\<forall>c. files w ANEEL_CACHE \<noteq> Some (Parquet c)) \<and> fst (fetch_aneel w) = Inr df \<and> empty df \<longrightarrow>
      fst (load_aneel_data parse w) = Inr df \<and>
      files (snd (load_aneel_data parse w)) = files w \<and>
      filter is_WriteParquet (log (snd (load_aneel_data parse w))) = filter is_WriteParquet (log w)) \<and>
   ((\<forall>c. files w ANEEL_CACHE \<noteq> Some (Parquet c)) \<and>
    endpoint w (requests_made w) = Raises (RequestException m) \<longrightarrow>
      fst (load_aneel_data parse w) = Inr empty_frame \<and>
      files (snd (load_aneel_data parse w)) = files w \<and>
      filter is_WriteParquet (log (snd (load_aneel_data parse w))) = filter is_WriteParquet (log w))"
proof -
  have hit: "files (snd (load_aneel_data parse w)) = files w \<and>
      filter is_WriteParquet (log (snd (load_aneel_data parse w))) = filter is_WriteParquet (log w)"
    if "files w ANEEL_CACHE = Some (Parquet c)" for c
    using load_aneel_hit [OF that, of parse] by (simp add: record_event_def)
  have miss: "fst (load_aneel_data parse w) = fst (fetch_aneel w) \<and>
      files (snd (load_aneel_data parse w)) = files w \<and>
      filter is_WriteParquet (log (snd (load_aneel_data parse w))) = filter is_WriteParquet (log w)"
    if m: "\<forall>c. files w ANEEL_CACHE \<noteq> Some (Parquet c)"
      and e: "\<forall>df. fst (fetch_aneel w) = Inr df \<longrightarrow> empty df"
  proof -
    from load_aneel_miss_fetch [OF m, of parse] obtain r es0 es where
      fw: "fetch_aneel w = (r, w\<lparr>log := log w @ es\<rparr>)" and
      w0: "\<not> list_ex is_WriteParquet es0" and w1: "\<not> list_ex is_WriteParquet es" and
      L: "load_aneel_data parse w =
       (case r of
          Inl e \<Rightarrow> (Inl e, w\<lparr>log := log w @ es0 @ es\<rparr>)
        | Inr df \<Rightarrow>
            if \<not> empty df
            then (case fst (process_coordinates parse (records_dtype df) df) of
                    Inl e \<Rightarrow> (Inl e, w\<lparr>log := log w @ es0 @ es\<rparr>)
                  | Inr df' \<Rightarrow>
                      if writable w ANEEL_CACHE df'
                      then (Inr df', w\<lparr>files := (files w)(ANEEL_CACHE \<mapsto> Parquet df'),
                                       log := log w @ es0 @ es @ [WriteParquet ANEEL_CACHE]\<rparr>)
                      else (Inl (OtherError ''Cannot write the Parquet file''), w\<lparr>log := log w @ es0 @ es\<rparr>))
            else (Inr df, w\<lparr>log := log w @ es0 @ es @ [StError aneel_empty_msg]\<rparr>))"
      by blast
    have z0: "filter is_WriteParquet es0 = []" using w0 by (simp add: list_ex_iff filter_empty_conv)
    have z1: "filter is_WriteParquet es = []" using w1 by (simp add: list_ex_iff filter_empty_conv)
    show ?thesis
    proof (cases r)
      case (Inl x)
      then show ?thesis by (simp add: L fw z0 z1)
    next
      case (Inr df)
      with e fw have "empty df" by simp
      with Inr show ?thesis by (simp add: L fw z0 z1)
    qed
  qed
  have net: "fst (fetch_aneel w) = Inr empty_frame"
    if "endpoint w (requests_made w) = Raises (RequestException m)"
    using that
    by (simp add: fetch_aneel_def retry.simps fetch_aneel_body_def st_error_def)
  have ee: "empty empty_frame" by (simp add: empty_def empty_frame_def)
  have p1: "(files (snd (load_aneel_data parse w)) \<noteq> files w \<or>
     filter is_WriteParquet (log (snd (load_aneel_data parse w))) \<noteq> filter is_WriteParquet (log w)) \<longrightarrow>
      (\<forall>c. files w ANEEL_CACHE \<noteq> Some (Parquet c)) \<and>
      (\<exists>df. fst (fetch_aneel w) = Inr df \<and> \<not> empty df)"
  proof (intro impI conjI)
    assume ch: "files (snd (load_aneel_data parse w)) \<noteq> files w \<or>
      filter is_WriteParquet (log (snd (load_aneel_data parse w))) \<noteq> filter is_WriteParquet (log w)"
    show "\<forall>c. files w ANEEL_CACHE \<noteq> Some (Parquet c)" using ch hit by blast
    then show "\<exists>df. fst (fetch_aneel w) = Inr df \<and> \<not> empty df" using ch miss by blast
  qed
  have p2: "(\<forall>c. files w ANEEL_CACHE \<noteq> Some (Parquet c)) \<and> fst (fetch_aneel w) = Inr df \<and> empty df \<longrightarrow>
      fst (load_aneel_data parse w) = Inr df \<and>
      files (snd (load_aneel_data parse w)) = files w \<and>
      filter is_WriteParquet (log (snd (load_aneel_data parse w))) = filter is_WriteParquet (log w)"
  proof (rule impI)
    assume a: "(\<forall>c. files w ANEEL_CACHE \<noteq> Some (Parquet c)) \<and> fst (fetch_aneel w) = Inr df \<and> empty df"
    then have "\<forall>d. fst (fetch_aneel w) = Inr d \<longrightarrow> empty d" by simp
    with a miss show "fst (load_aneel_data parse w) = Inr df \<and>
      files (snd (load_aneel_data parse w)) = files w \<and>
      filter is_WriteParquet (log (snd (load_aneel_data parse w))) = filter is_WriteParquet (log w)"
      by simp
  qed
  have p3: "(\<forall>c. files w ANEEL_CACHE \<noteq> Some (Parquet c)) \<and>
    endpoint w (requests_made w) = Raises (RequestException m) \<longrightarrow>
      fst (load_aneel_data parse w) = Inr empty_frame \<and>
      files (snd (load_aneel_data parse w)) = files w \<and>
      filter is_WriteParquet (log (snd (load_aneel_data parse w))) = filter is_WriteParquet (log w)"
  proof (rule impI)
    assume a: "(\<forall>c. files w ANEEL_CACHE \<noteq> Some (Parquet c)) \<and>
      endpoint w (requests_made w) = Raises (RequestException m)"
    from a have f: "fst (fetch_aneel w) = Inr empty_frame" by (simp add: net)
    then have "\<forall>d. fst (fetch_aneel w) = Inr d \<longrightarrow> empty d" using ee by simp
    with a f miss show "fst (load_aneel_data parse w) = Inr empty_frame \<and>
      files (snd (load_aneel_data parse w)) = files w \<and>
      filter is_WriteParquet (log (snd (load_aneel_data parse w))) = filter is_WriteParquet (log w)"
      by simp
  qed
  from p1 p2 p3 show ?thesis by (intro conjI)
qed

text \<open>
  With a corrupt snapshot on disk and no network the loader returns the empty frame and
  the corrupt snapshot is still there.
\<close>

theorem load_aneel_data_writes_only_nonempty_witness:
  "files world_offline ANEEL_CACHE = Some Unreadable \<and>
   endpoint world_offline (requests_made world_offline) = Raises (RequestException ''Connection refused'') \<and>
   fst (load_aneel_data example_parse world_offline) = Inr empty_frame \<and>
   files (snd (load_aneel_data example_parse world_offline)) = files world_offline \<and>
   filter is_WriteParquet (log (snd (load_aneel_data example_parse world_offline))) = []"
proof -
  have m: "\<forall>c. files world_offline ANEEL_CACHE \<noteq> Some (Parquet c)"
    by (simp add: world_offline_def)
  have f: "endpoint world_offline (requests_made world_offline) = Raises (RequestException ''Connection refused'')"
    by (simp add: world_offline_def)
  have l: "filter is_WriteParquet (log world_offline) = []" by (simp add: world_offline_def)
  from load_aneel_data_writes_only_nonempty
    [of example_parse world_offline _ "''Connection refused''"] m f l
  show ?thesis by (simp add: world_offline_def)
qed

section \<open>Properties of the Coordinate Normalizer\<close>

lemma column_cells_set_column:
  "c' \<noteq> c \<Longrightarrow> column_cells (set_column df c f) c' = column_cells df c'"
  by (simp add: column_cells_def set_column_def cell_of_def)

lemma columns_set_column:
  "set (columns (set_column df c f)) = insert c (set (columns df))"
  by (auto simp: set_column_def with_column_def)

lemma coord_column_Inr_iff:
  "(\<exists>f. coord_column parse obj df c = Inr f) \<longleftrightarrow>
     c \<in> set (columns df) \<and> str_accessor_ok (obj c) (column_cells df c)"
  by (simp add: coord_column_def)

lemma coord_column_ok:
  assumes "c \<in> set (columns df)" and "str_accessor_ok (obj c) (column_cells df c)"
  shows "coord_column parse obj df c =
     Inr (\<lambda>r. Num (to_numeric parse (str_replace_cell (cell_of r c))))"
  using assms by (simp add: coord_column_def)

lemma to_numeric_not_NaN:
  "to_numeric parse (str_replace_cell c) \<noteq> NaN \<longleftrightarrow>
     (\<exists>s x. c = Str s \<and> parse (str_replace s) = Some x \<and> x \<noteq> NaN)"
  by (cases c) (auto split: option.splits)

lemma isna_Num: "isna (Num x) \<longleftrightarrow> x = NaN"
  by (cases x) simp_all

text \<open>The result and the argument after the call, when neither column lookup raises.\<close>

lemma process_coordinates_ok:
  assumes "''lat_str'' \<in> set (columns df)" and "''lng_str'' \<in> set (columns df)"
    and "str_accessor_ok (obj ''lat_str'') (column_cells df ''lat_str'')"
    and "str_accessor_ok (obj ''lng_str'') (column_cells df ''lng_str'')"
  shows "process_coordinates parse obj df =
     (Inr \<lparr>columns = with_column (with_column (columns df) ''latitude'') ''longitude'',
           rows = map (\<lambda>r. r(''latitude'' \<mapsto> Num (to_numeric parse (str_replace_cell (cell_of r ''lat_str''))),
                              ''longitude'' \<mapsto> Num (to_numeric parse (str_replace_cell (cell_of r ''lng_str'')))))
                   (filter (\<lambda>r. to_numeric parse (str_replace_cell (cell_of r ''lat_str'')) \<noteq> NaN \<and>
                                to_numeric parse (str_replace_cell (cell_of r ''lng_str'')) \<noteq> NaN)
                      (rows df))\<rparr>,
      \<lparr>columns = with_column (with_column (columns df) ''latitude'') ''longitude'',
       rows = map (\<lambda>r. r(''latitude'' \<mapsto> Num (to_numeric parse (str_replace_cell (cell_of r ''lat_str''))),
                          ''longitude'' \<mapsto> Num (to_numeric parse (str_replace_cell (cell_of r ''lng_str'')))))
                   (rows df)\<rparr>)"
proof -
  let ?lat = "\<lambda>r. Num (to_numeric parse (str_replace_cell (cell_of r ''lat_str'')))"
  let ?lng = "\<lambda>r. Num (to_numeric parse (str_replace_cell (cell_of r ''lng_str'')))"
  let ?df1 = "set_column df ''latitude'' ?lat"
  have c1: "coord_column parse obj df ''lat_str'' = Inr ?lat"
    using assms by (simp add: coord_column_ok)
  have "''lng_str'' \<in> set (columns ?df1)" using assms(2) by (simp add: columns_set_column)
  moreover have "str_accessor_ok (obj ''lng_str'') (column_cells ?df1 ''lng_str'')"
    using assms(4) by (simp add: column_cells_set_column)
  ultimately have c2: "coord_column parse (obj(''latitude'' := False)) ?df1 ''lng_str'' = Inr ?lng"
    by (simp add: coord_column_ok)
  show ?thesis
    unfolding process_coordinates_def c1 sum.case Let_def c2
    by (simp add: dropna_def set_column_def with_column_def cell_of_def filter_map comp_def isna_Num)
qed


lemma coord_column_InrD:
  assumes "coord_column parse obj df c = Inr f"
  shows "c \<in> set (columns df)" and "str_accessor_ok (obj c) (column_cells df c)"
  using assms by (simp_all add: coord_column_def split: if_splits)

lemma process_coordinates_Inr:
  assumes "fst (process_coordinates parse obj df) = Inr out"
  shows "''lat_str'' \<in> set (columns df) \<and> ''lng_str'' \<in> set (columns df) \<and>
         str_accessor_ok (obj ''lat_str'') (column_cells df ''lat_str'') \<and>
         str_accessor_ok (obj ''lng_str'') (column_cells df ''lng_str'')"
proof (cases "coord_column parse obj df ''lat_str''")
  case (Inl e)
  with assms show ?thesis by (simp add: process_coordinates_def)
next
  case lat: (Inr lat)
  let ?df1 = "set_column df ''latitude'' lat"
  show ?thesis
  proof (cases "coord_column parse (obj(''latitude'' := False)) ?df1 ''lng_str''")
    case (Inl e)
    with assms lat show ?thesis by (simp add: process_coordinates_def Let_def)
  next
    case lng: (Inr lng)
    from coord_column_InrD [OF lat] have a: "''lat_str'' \<in> set (columns df)"
      and b: "str_accessor_ok (obj ''lat_str'') (column_cells df ''lat_str'')" .
    from coord_column_InrD [OF lng] have "''lng_str'' \<in> set (columns ?df1)"
      and "str_accessor_ok ((obj(''latitude'' := False)) ''lng_str'') (column_cells ?df1 ''lng_str'')" .
    then have "''lng_str'' \<in> set (columns df)"
      and "str_accessor_ok (obj ''lng_str'') (column_cells df ''lng_str'')"
      by (simp_all add: columns_set_column column_cells_set_column)
    with a b show ?thesis by simp
  qed
qed

lemma process_coordinates_Inl:
  assumes "\<not> (''lat_str'' \<in> set (columns df) \<and> ''lng_str'' \<in> set (columns df) \<and>
         str_accessor_ok (obj ''lat_str'') (column_cells df ''lat_str'') \<and>
         str_accessor_ok (obj ''lng_str'') (column_cells df ''lng_str''))"
  shows "\<exists>e. fst (process_coordinates parse obj df) = Inl e"
  using assms process_coordinates_Inr [of parse obj df] by (cases "fst (process_coordinates parse obj df)") auto

text \<open>
  Claim C5. Whenever \<^verbatim>\<open>process_coordinates\<close> returns a frame, every row of it has a
  numeric, non-missing \<^verbatim>\<open>latitude\<close> and \<^verbatim>\<open>longitude\<close>, and each is what the float
  parser makes of the row's raw string with every comma replaced by a period. The rows
  returned are exactly the input rows for which both raw strings parse to a number that
  is not NaN, each with its two new fields: a row with an unparsable or missing
  coordinate is absent, never kept with one coordinate missing.
\<close>

theorem process_coordinates_output:
  assumes "fst (process_coordinates parse obj df) = Inr out"
  shows "(\<forall>r \<in> set (rows out). \<exists>s t x y.
            cell_of r ''lat_str'' = Str s \<and> cell_of r ''lng_str'' = Str t \<and>
            parse (map (\<lambda>c. if c = CHR '','' then CHR ''.'' else c) s) = Some x \<and>
            parse (map (\<lambda>c. if c = CHR '','' then CHR ''.'' else c) t) = Some y \<and>
            x \<noteq> NaN \<and> y \<noteq> NaN \<and>
            r ''latitude'' = Some (Num x) \<and> r ''longitude'' = Some (Num y)) \<and>
         rows out =
           map (\<lambda>r. r(''latitude'' \<mapsto> Num (to_numeric parse (str_replace_cell (cell_of r ''lat_str''))),
                      ''longitude'' \<mapsto> Num (to_numeric parse (str_replace_cell (cell_of r ''lng_str'')))))
             (filter (\<lambda>r. \<exists>s t x y.
                  cell_of r ''lat_str'' = Str s \<and> cell_of r ''lng_str'' = Str t \<and>
                  parse (map (\<lambda>c. if c = CHR '','' then CHR ''.'' else c) s) = Some x \<and>
                  parse (map (\<lambda>c. if c = CHR '','' then CHR ''.'' else c) t) = Some y \<and>
                  x \<noteq> NaN \<and> y \<noteq> NaN)
                (rows df))"
proof -
  let ?N = "\<lambda>r. r(''latitude'' \<mapsto> Num (to_numeric parse (str_replace_cell (cell_of r ''lat_str''))),
                   ''longitude'' \<mapsto> Num (to_numeric parse (str_replace_cell (cell_of r ''lng_str''))))"
  let ?keep = "\<lambda>r. \<exists>s t x y.
                  cell_of r ''lat_str'' = Str s \<and> cell_of r ''lng_str'' = Str t \<and>
                  parse (map (\<lambda>c. if c = CHR '','' then CHR ''.'' else c) s) = Some x \<and>
                  parse (map (\<lambda>c. if c = CHR '','' then CHR ''.'' else c) t) = Some y \<and>
                  x \<noteq> NaN \<and> y \<noteq> NaN"
  have keep: "(to_numeric parse (str_replace_cell (cell_of r ''lat_str'')) \<noteq> NaN \<and>
               to_numeric parse (str_replace_cell (cell_of r ''lng_str'')) \<noteq> NaN) = ?keep r" for r
    unfolding to_numeric_not_NaN str_replace_def by blast
  from process_coordinates_Inr [OF assms] have
    "process_coordinates parse obj df =
     (Inr \<lparr>columns = with_column (with_column (columns df) ''latitude'') ''longitude'',
           rows = map ?N (filter (\<lambda>r. to_numeric parse (str_replace_cell (cell_of r ''lat_str'')) \<noteq> NaN \<and>
                                to_numeric parse (str_replace_cell (cell_of r ''lng_str'')) \<noteq> NaN)
                      (rows df))\<rparr>,
      \<lparr>columns = with_column (with_column (columns df) ''latitude'') ''longitude'',
       rows = map ?N (rows df)\<rparr>)"
    by (simp add: process_coordinates_ok)
  with assms have out: "rows out = map ?N (filter ?keep (rows df))"
    by (auto simp: keep)
  have "\<exists>s t x y.
            cell_of r ''lat_str'' = Str s \<and> cell_of r ''lng_str'' = Str t \<and>
            parse (map (\<lambda>c. if c = CHR '','' then CHR ''.'' else c) s) = Some x \<and>
            parse (map (\<lambda>c. if c = CHR '','' then CHR ''.'' else c) t) = Some y \<and>
            x \<noteq> NaN \<and> y \<noteq> NaN \<and>
            r ''latitude'' = Some (Num x) \<and> r ''longitude'' = Some (Num y)"
    if "r \<in> set (rows out)" for r
  proof -
    from that have "r \<in> ?N ` {r0 \<in> set (rows df). ?keep r0}"
      unfolding out by (simp only: set_map set_filter)
    then obtain r0 where r: "r = ?N r0" and k: "?keep r0" by blast
    from k obtain s t x y where
      "cell_of r0 ''lat_str'' = Str s" "cell_of r0 ''lng_str'' = Str t"
      "parse (map (\<lambda>c. if c = CHR '','' then CHR ''.'' else c) s) = Some x"
      "parse (map (\<lambda>c. if c = CHR '','' then CHR ''.'' else c) t) = Some y"
      "x \<noteq> NaN" "y \<noteq> NaN" by blast
    then show ?thesis
      by (intro exI [of _ s] exI [of _ t] exI [of _ x] exI [of _ y])
        (simp add: r cell_of_def str_replace_def)
  qed
  with out show ?thesis by blast
qed

text \<open>
  Two fetched rows, the second with latitude \<^verbatim>\<open>abc\<close>: one row comes out.
\<close>

theorem process_coordinates_output_witness:
  "fst (process_coordinates example_parse (records_dtype aneel_records) aneel_records) = Inr aneel_normalized \<and>
   rows aneel_normalized =
     [[''lat_str'' \<mapsto> Str ''-1,45'', ''lng_str'' \<mapsto> Str ''-48,50'',
       ''latitude'' \<mapsto> Num (Fin (-1.45)), ''longitude'' \<mapsto> Num (Fin (-48.5))]] \<and>
   length (rows aneel_records) = 2"
proof -
  have h: "fst (process_coordinates example_parse (records_dtype aneel_records) aneel_records) = Inr aneel_normalized"
    by (simp add: process_coordinates_def coord_column_def aneel_records_def aneel_normalized_def
      str_accessor_ok_def records_dtype_def column_cells_def cell_of_def set_column_def
      with_column_def dropna_def
      example_parse_def str_replace_def Let_def)
  from process_coordinates_output [OF h, THEN conjunct2] h show ?thesis
    by (simp add: aneel_records_def cell_of_def example_parse_def str_replace_def)
qed

text \<open>
  Claim C6 says that \<^verbatim>\<open>process_coordinates\<close> never raises and does not modify its input.
  On a record set without a \<^verbatim>\<open>lat_str\<close> column it raises \<^verbatim>\<open>KeyError\<close>, and on the example
  record set the argument is not what it was before the call.
\<close>

theorem process_coordinates_pure_total_counterexample:
  "fst (process_coordinates example_parse (\<lambda>c. True)
          \<lparr>columns = [''NomMunicipio''], rows = [[''NomMunicipio'' \<mapsto> Str ''Belem'']]\<rparr>) =
     Inl (KeyError ''lat_str'') \<and>
   snd (process_coordinates example_parse (records_dtype aneel_records) aneel_records) \<noteq>
     aneel_records"
  by (simp add: process_coordinates_def coord_column_def aneel_records_def
      str_accessor_ok_def records_dtype_def column_cells_def cell_of_def set_column_def
      with_column_def dropna_def Let_def)

text \<open>
  Claim C6, amended. \<^verbatim>\<open>process_coordinates\<close> is order-preserving, and it is neither total
  nor pure. It raises \<^verbatim>\<open>KeyError\<close> when the \<^verbatim>\<open>lat_str\<close> column is absent, and
  \<^verbatim>\<open>AttributeError\<close> when that column is present but is not a string column (a numeric
  column, also one without rows); in both cases the argument is unchanged. With
  \<^verbatim>\<open>lat_str\<close> a string column, it raises \<^verbatim>\<open>KeyError\<close> when the \<^verbatim>\<open>lng_str\<close> column is absent
  and \<^verbatim>\<open>AttributeError\<close> when that column is not a string column, and the argument has
  then been given its \<^verbatim>\<open>latitude\<close> column. When both columns are present and are string
  columns it returns: the rows returned are rows of the argument after the call, in the
  same order, and the argument after the call has all the rows it had, in order, each
  with its other fields unchanged and with the two new fields \<^verbatim>\<open>latitude\<close> and
  \<^verbatim>\<open>longitude\<close>.
\<close>

theorem process_coordinates_order_preserving:
  "(''lat_str'' \<notin> set (columns df) \<longrightarrow>
      process_coordinates parse obj df = (Inl (KeyError ''lat_str''), df)) \<and>
   (''lat_str'' \<in> set (columns df) \<and>
    \<not> str_accessor_ok (obj ''lat_str'') (column_cells df ''lat_str'') \<longrightarrow>
      (\<exists>m. process_coordinates parse obj df = (Inl (AttributeError m), df))) \<and>
   (''lat_str'' \<in> set (columns df) \<and>
    str_accessor_ok (obj ''lat_str'') (column_cells df ''lat_str'') \<and>
    ''lng_str'' \<notin> set (columns df) \<longrightarrow>
      process_coordinates parse obj df =
        (Inl (KeyError ''lng_str''),
         \<lparr>columns = with_column (columns df) ''latitude'',
          rows = map (\<lambda>r. r(''latitude'' \<mapsto> Num (to_numeric parse (str_replace_cell (cell_of r ''lat_str'')))))
                   (rows df)\<rparr>)) \<and>
   (''lat_str'' \<in> set (columns df) \<and>
    str_accessor_ok (obj ''lat_str'') (column_cells df ''lat_str'') \<and>
    ''lng_str'' \<in> set (columns df) \<and>
    \<not> str_accessor_ok (obj ''lng_str'') (column_cells df ''lng_str'') \<longrightarrow>
      (\<exists>m. process_coordinates parse obj df =
        (Inl (AttributeError m),
         \<lparr>columns = with_column (columns df) ''latitude'',
          rows = map (\<lambda>r. r(''latitude'' \<mapsto> Num (to_numeric parse (str_replace_cell (cell_of r ''lat_str'')))))
                   (rows df)\<rparr>))) \<and>
   (''lat_str'' \<in> set (columns df) \<and>
    str_accessor_ok (obj ''lat_str'') (column_cells df ''lat_str'') \<and>
    ''lng_str'' \<in> set (columns df) \<and>
    str_accessor_ok (obj ''lng_str'') (column_cells df ''lng_str'') \<longrightarrow>
      (\<exists>out. fst (process_coordinates parse obj df) = Inr out \<and>
         rows out =
           filter (\<lambda>r. \<not> isna (cell_of r ''latitude'') \<and> \<not> isna (cell_of r ''longitude''))
             (rows (snd (process_coordinates parse obj df)))) \<and>
      snd (process_coordinates parse obj df) =
        \<lparr>columns = with_column (with_column (columns df) ''latitude'') ''longitude'',
         rows = map (\<lambda>r. r(''latitude'' \<mapsto> Num (to_numeric parse (str_replace_cell (cell_of r ''lat_str''))),
                           ''longitude'' \<mapsto> Num (to_numeric parse (str_replace_cell (cell_of r ''lng_str'')))))
                  (rows df)\<rparr>)"
proof -
  let ?lat = "\<lambda>r. Num (to_numeric parse (str_replace_cell (cell_of r ''lat_str'')))"
  let ?df1 = "set_column df ''latitude'' ?lat"
  have df1: "?df1 = \<lparr>columns = with_column (columns df) ''latitude'',
          rows = map (\<lambda>r. r(''latitude'' \<mapsto> ?lat r)) (rows df)\<rparr>"
    by (simp add: set_column_def)
  have p1: "''lat_str'' \<notin> set (columns df) \<longrightarrow>
      process_coordinates parse obj df = (Inl (KeyError ''lat_str''), df)"
    by (simp add: process_coordinates_def coord_column_def)
  have p2: "''lat_str'' \<in> set (columns df) \<and>
    \<not> str_accessor_ok (obj ''lat_str'') (column_cells df ''lat_str'') \<longrightarrow>
      (\<exists>m. process_coordinates parse obj df = (Inl (AttributeError m), df))"
    by (simp add: process_coordinates_def coord_column_def)
  have lat: "coord_column parse obj df ''lat_str'' = Inr ?lat"
    if "''lat_str'' \<in> set (columns df)"
      "str_accessor_ok (obj ''lat_str'') (column_cells df ''lat_str'')"
    using that by (rule coord_column_ok)
  have step: "process_coordinates parse obj df =
      (case coord_column parse (obj(''latitude'' := False)) ?df1 ''lng_str'' of
         Inl e \<Rightarrow> (Inl e, ?df1)
       | Inr lng \<Rightarrow>
           (dropna [''latitude'', ''longitude''] (set_column ?df1 ''longitude'' lng),
            set_column ?df1 ''longitude'' lng))"
    if "''lat_str'' \<in> set (columns df)"
      "str_accessor_ok (obj ''lat_str'') (column_cells df ''lat_str'')"
    unfolding process_coordinates_def lat [OF that] sum.case Let_def ..
  have p3: "''lat_str'' \<in> set (columns df) \<and>
    str_accessor_ok (obj ''lat_str'') (column_cells df ''lat_str'') \<and>
    ''lng_str'' \<notin> set (columns df) \<longrightarrow>
      process_coordinates parse obj df = (Inl (KeyError ''lng_str''), ?df1)"
  proof (intro impI, elim conjE)
    assume a: "''lat_str'' \<in> set (columns df)"
      "str_accessor_ok (obj ''lat_str'') (column_cells df ''lat_str'')"
      and n: "''lng_str'' \<notin> set (columns df)"
    from n have "''lng_str'' \<notin> set (columns ?df1)" by (simp add: columns_set_column)
    then have "coord_column parse (obj(''latitude'' := False)) ?df1 ''lng_str'' = Inl (KeyError ''lng_str'')"
      by (simp add: coord_column_def)
    then show "process_coordinates parse obj df = (Inl (KeyError ''lng_str''), ?df1)"
      by (simp add: step [OF a])
  qed
  have p4: "''lat_str'' \<in> set (columns df) \<and>
    str_accessor_ok (obj ''lat_str'') (column_cells df ''lat_str'') \<and>
    ''lng_str'' \<in> set (columns df) \<and>
    \<not> str_accessor_ok (obj ''lng_str'') (column_cells df ''lng_str'') \<longrightarrow>
      (\<exists>m. process_coordinates parse obj df = (Inl (AttributeError m), ?df1))"
  proof (intro impI, elim conjE)
    assume a: "''lat_str'' \<in> set (columns df)"
      "str_accessor_ok (obj ''lat_str'') (column_cells df ''lat_str'')"
      and i: "''lng_str'' \<in> set (columns df)"
      and n: "\<not> str_accessor_ok (obj ''lng_str'') (column_cells df ''lng_str'')"
    from i have i1: "''lng_str'' \<in> set (columns ?df1)" by (simp add: columns_set_column)
    from n have n1: "\<not> str_accessor_ok ((obj(''latitude'' := False)) ''lng_str'') (column_cells ?df1 ''lng_str'')"
      by (simp add: column_cells_set_column)
    have "coord_column parse (obj(''latitude'' := False)) ?df1 ''lng_str'' =
        Inl (AttributeError ''Can only use .str accessor with string values!'')"
      using i1 n1 unfolding coord_column_def by simp
    then show "\<exists>m. process_coordinates parse obj df = (Inl (AttributeError m), ?df1)"
      by (simp add: step [OF a])
  qed
  have p5: "''lat_str'' \<in> set (columns df) \<and>
    str_accessor_ok (obj ''lat_str'') (column_cells df ''lat_str'') \<and>
    ''lng_str'' \<in> set (columns df) \<and>
    str_accessor_ok (obj ''lng_str'') (column_cells df ''lng_str'') \<longrightarrow>
      (\<exists>out. fst (process_coordinates parse obj df) = Inr out \<and>
         rows out =
           filter (\<lambda>r. \<not> isna (cell_of r ''latitude'') \<and> \<not> isna (cell_of r ''longitude''))
             (rows (snd (process_coordinates parse obj df)))) \<and>
      snd (process_coordinates parse obj df) =
        \<lparr>columns = with_column (with_column (columns df) ''latitude'') ''longitude'',
         rows = map (\<lambda>r. r(''latitude'' \<mapsto> Num (to_numeric parse (str_replace_cell (cell_of r ''lat_str''))),
                           ''longitude'' \<mapsto> Num (to_numeric parse (str_replace_cell (cell_of r ''lng_str'')))))
                  (rows df)\<rparr>"
  proof (intro impI, elim conjE)
    assume a: "''lat_str'' \<in> set (columns df)"
      "str_accessor_ok (obj ''lat_str'') (column_cells df ''lat_str'')"
      "''lng_str'' \<in> set (columns df)"
      "str_accessor_ok (obj ''lng_str'') (column_cells df ''lng_str'')"
    note p = process_coordinates_ok [OF a(1) a(3) a(2) a(4), of parse]
    show "(\<exists>out. fst (process_coordinates parse obj df) = Inr out \<and>
         rows out =
           filter (\<lambda>r. \<not> isna (cell_of r ''latitude'') \<and> \<not> isna (cell_of r ''longitude''))
             (rows (snd (process_coordinates parse obj df)))) \<and>
      snd (process_coordinates parse obj df) =
        \<lparr>columns = with_column (with_column (columns df) ''latitude'') ''longitude'',
         rows = map (\<lambda>r. r(''latitude'' \<mapsto> Num (to_numeric parse (str_replace_cell (cell_of r ''lat_str''))),
                           ''longitude'' \<mapsto> Num (to_numeric parse (str_replace_cell (cell_of r ''lng_str'')))))
                  (rows df)\<rparr>"
      by (simp add: p filter_map comp_def cell_of_def isna_Num)
  qed
  from p1 p2 p3 p4 p5 show ?thesis unfolding df1 by (intro conjI)
qed

text \<open>
  The example record set has both string columns: the call returns, and the argument has
  four columns and still two rows. On the frame with two numeric columns and no row the
  call raises \<^verbatim>\<open>AttributeError\<close>.
\<close>

theorem process_coordinates_order_preserving_witness:
  "''lat_str'' \<in> set (columns aneel_records) \<and> ''lng_str'' \<in> set (columns aneel_records) \<and>
   str_accessor_ok (records_dtype aneel_records ''lat_str'') (column_cells aneel_records ''lat_str'') \<and>
   str_accessor_ok (records_dtype aneel_records ''lng_str'') (column_cells aneel_records ''lng_str'') \<and>
   fst (process_coordinates example_parse (records_dtype aneel_records) aneel_records) =
     Inr aneel_normalized \<and>
   columns (snd (process_coordinates example_parse (records_dtype aneel_records) aneel_records)) =
     [''lat_str'', ''lng_str'', ''latitude'', ''longitude''] \<and>
   length (rows (snd (process_coordinates example_parse (records_dtype aneel_records) aneel_records))) = 2 \<and>
   ''lat_str'' \<in> set (columns no_rows_numeric) \<and>
   \<not> str_accessor_ok False (column_cells no_rows_numeric ''lat_str'') \<and>
   (\<exists>m. process_coordinates example_parse (\<lambda>c. False) no_rows_numeric =
          (Inl (AttributeError m), no_rows_numeric))"
proof -
  have a: "''lat_str'' \<in> set (columns aneel_records) \<and>
     str_accessor_ok (records_dtype aneel_records ''lat_str'') (column_cells aneel_records ''lat_str'') \<and>
     ''lng_str'' \<in> set (columns aneel_records) \<and>
     str_accessor_ok (records_dtype aneel_records ''lng_str'') (column_cells aneel_records ''lng_str'')"
    by (simp add: aneel_records_def str_accessor_ok_def records_dtype_def column_cells_def cell_of_def)
  have s: "snd (process_coordinates example_parse (records_dtype aneel_records) aneel_records) =
        \<lparr>columns = with_column (with_column (columns aneel_records) ''latitude'') ''longitude'',
         rows = map (\<lambda>r. r(''latitude'' \<mapsto> Num (to_numeric example_parse (str_replace_cell (cell_of r ''lat_str''))),
                           ''longitude'' \<mapsto> Num (to_numeric example_parse (str_replace_cell (cell_of r ''lng_str'')))))
                  (rows aneel_records)\<rparr>"
    using process_coordinates_order_preserving
      [of aneel_records example_parse "records_dtype aneel_records"] a by blast
  have f: "fst (process_coordinates example_parse (records_dtype aneel_records) aneel_records) =
      Inr aneel_normalized"
    by (simp add: process_coordinates_def coord_column_def aneel_records_def aneel_normalized_def
      str_accessor_ok_def records_dtype_def column_cells_def cell_of_def set_column_def
      with_column_def dropna_def example_parse_def str_replace_def Let_def)
  have b: "''lat_str'' \<in> set (columns no_rows_numeric) \<and>
      \<not> str_accessor_ok False (column_cells no_rows_numeric ''lat_str'')"
    by (simp add: no_rows_numeric_def str_accessor_ok_def)
  have e: "\<exists>m. process_coordinates example_parse (\<lambda>c. False) no_rows_numeric =
          (Inl (AttributeError m), no_rows_numeric)"
    using process_coordinates_order_preserving
      [of no_rows_numeric example_parse "\<lambda>c. False"] b by blast
  show ?thesis
    using a f b e by (simp add: s) (simp add: aneel_records_def with_column_def)
qed

section \<open>Properties of the franchise and plant loaders\<close>

lemma franchise_paths_distinct: "FRANCHISE_INPUT \<noteq> FRANCHISE_DATA"
  by (simp add: FRANCHISE_INPUT_def FRANCHISE_DATA_def DATA_DIR_def)

lemma dropna_coords:
  assumes "''latitude'' \<in> set (columns df)" and "''longitude'' \<in> set (columns df)"
  shows "dropna [''latitude'', ''longitude''] df =
     Inr (df\<lparr>rows := filter (\<lambda>r. \<not> isna (cell_of r ''latitude'') \<and> \<not> isna (cell_of r ''longitude''))
                          (rows df)\<rparr>)"
  using assms by (simp add: dropna_def)

lemma load_franchise_hit:
  assumes "files w FRANCHISE_DATA = Some (Parquet df)"
  shows "load_franchise_data w = (Inr df, record_event (ReadParquet FRANCHISE_DATA) w)"
  using assms by (simp add: load_franchise_data_def path_exists_def read_parquet_def)

lemma load_franchise_from_csv:
  assumes "files w FRANCHISE_DATA = None"
    and "files w FRANCHISE_INPUT = Some (Csv src)"
    and "''latitude'' \<in> set (columns src)" and "''longitude'' \<in> set (columns src)"
    and "writable w FRANCHISE_DATA
           (src\<lparr>rows := filter (\<lambda>r. \<not> isna (cell_of r ''latitude'') \<and> \<not> isna (cell_of r ''longitude''))
                          (rows src)\<rparr>)"
  shows "load_franchise_data w =
     (Inr (src\<lparr>rows := filter (\<lambda>r. \<not> isna (cell_of r ''latitude'') \<and> \<not> isna (cell_of r ''longitude''))
                          (rows src)\<rparr>),
      w\<lparr>files := (files w)(FRANCHISE_DATA \<mapsto>
            Parquet (src\<lparr>rows := filter (\<lambda>r. \<not> isna (cell_of r ''latitude'') \<and> \<not> isna (cell_of r ''longitude''))
                          (rows src)\<rparr>)),
        log := log w @ [ReadCsv FRANCHISE_INPUT, WriteParquet FRANCHISE_DATA]\<rparr>)"
  using assms
  by (simp add: load_franchise_data_def path_exists_def read_csv_def dropna_coords
      to_parquet_def record_event_def)

text \<open>
  Claim C3. With no franchise snapshot and a source file of five rows that has both
  coordinate columns, one row lacking its longitude and none lacking its latitude, and
  where the write of the kept rows to the snapshot path succeeds,
  \<^verbatim>\<open>load_franchise_data\<close> returns the four rows that have both coordinates and writes them
  as the snapshot. A second call returns the same four rows, and it reads the snapshot
  only: its result and its log are the same whatever the source file then is, present or
  not.
\<close>

theorem load_franchise_data_two_calls:
  assumes "files w FRANCHISE_DATA = None"
    and "files w FRANCHISE_INPUT = Some (Csv src)"
    and "''latitude'' \<in> set (columns src)" and "''longitude'' \<in> set (columns src)"
    and "writable w FRANCHISE_DATA
           (src\<lparr>rows := filter (\<lambda>r. \<not> isna (cell_of r ''latitude'') \<and> \<not> isna (cell_of r ''longitude''))
                          (rows src)\<rparr>)"
    and "length (rows src) = 5"
    and "length (filter (\<lambda>r. isna (cell_of r ''longitude'')) (rows src)) = 1"
    and "list_all (\<lambda>r. \<not> isna (cell_of r ''latitude'')) (rows src)"
  shows "\<exists>kept w1.
     load_franchise_data w = (Inr kept, w1) \<and>
     kept = src\<lparr>rows := filter (\<lambda>r. \<not> isna (cell_of r ''latitude'') \<and> \<not> isna (cell_of r ''longitude''))
                           (rows src)\<rparr> \<and>
     length (rows kept) = 4 \<and>
     files w1 = (files w)(FRANCHISE_DATA \<mapsto> Parquet kept) \<and>
     load_franchise_data w1 = (Inr kept, record_event (ReadParquet FRANCHISE_DATA) w1) \<and>
     (\<forall>x. load_franchise_data (w1\<lparr>files := (files w1)(FRANCHISE_INPUT := x)\<rparr>) =
           (Inr kept, record_event (ReadParquet FRANCHISE_DATA)
                        (w1\<lparr>files := (files w1)(FRANCHISE_INPUT := x)\<rparr>)))"
proof -
  let ?P = "\<lambda>r. \<not> isna (cell_of r ''latitude'') \<and> \<not> isna (cell_of r ''longitude'')"
  let ?kept = "src\<lparr>rows := filter ?P (rows src)\<rparr>"
  let ?w1 = "w\<lparr>files := (files w)(FRANCHISE_DATA \<mapsto> Parquet ?kept),
        log := log w @ [ReadCsv FRANCHISE_INPUT, WriteParquet FRANCHISE_DATA]\<rparr>"
  have first: "load_franchise_data w = (Inr ?kept, ?w1)"
    using assms(1-5) by (rule load_franchise_from_csv)
  have "filter (\<lambda>r. \<not> ?P r) (rows src) = filter (\<lambda>r. isna (cell_of r ''longitude'')) (rows src)"
    using assms(8) by (intro filter_cong) (auto simp: list_all_iff)
  then have "length (filter (\<lambda>r. \<not> ?P r) (rows src)) = 1" using assms(7) by simp
  moreover have "length (filter ?P (rows src)) + length (filter (\<lambda>r. \<not> ?P r) (rows src)) = length (rows src)"
    by (rule sum_length_filter_compl)
  ultimately have four: "length (rows ?kept) = 4" using assms(6) by simp
  have snap: "files ?w1 FRANCHISE_DATA = Some (Parquet ?kept)" by simp
  have second: "load_franchise_data ?w1 = (Inr ?kept, record_event (ReadParquet FRANCHISE_DATA) ?w1)"
    using snap by (rule load_franchise_hit)
  have indep: "load_franchise_data (?w1\<lparr>files := (files ?w1)(FRANCHISE_INPUT := x)\<rparr>) =
           (Inr ?kept, record_event (ReadParquet FRANCHISE_DATA)
                        (?w1\<lparr>files := (files ?w1)(FRANCHISE_INPUT := x)\<rparr>))" for x
  proof -
    have "files (?w1\<lparr>files := (files ?w1)(FRANCHISE_INPUT := x)\<rparr>) FRANCHISE_DATA = Some (Parquet ?kept)"
      using franchise_paths_distinct by simp
    then show ?thesis by (rule load_franchise_hit)
  qed
  show ?thesis
    apply (rule exI [of _ ?kept], rule exI [of _ ?w1])
    apply (intro conjI allI first refl four second indep)
    apply simp
    done
qed

text \<open>
  The example source file: five rows, the third without longitude. The log after the
  second call shows one read of the source, one write and one read of the snapshot.
\<close>

theorem load_franchise_data_two_calls_witness:
  "files world_franchise_csv FRANCHISE_DATA = None \<and>
   files world_franchise_csv FRANCHISE_INPUT = Some (Csv franchise_csv) \<and>
   length (rows franchise_csv) = 5 \<and>
   length (filter (\<lambda>r. isna (cell_of r ''longitude'')) (rows franchise_csv)) = 1 \<and>
   fst (load_franchise_data world_franchise_csv) = Inr franchise_kept \<and>
   length (rows franchise_kept) = 4 \<and>
   files (snd (load_franchise_data world_franchise_csv)) FRANCHISE_DATA = Some (Parquet franchise_kept) \<and>
   fst (load_franchise_data (snd (load_franchise_data world_franchise_csv))) = Inr franchise_kept \<and>
   log (snd (load_franchise_data (snd (load_franchise_data world_franchise_csv)))) =
     [ReadCsv FRANCHISE_INPUT, WriteParquet FRANCHISE_DATA, ReadParquet FRANCHISE_DATA]"
proof -
  have d: "FRANCHISE_INPUT \<noteq> FRANCHISE_DATA"
    by (simp add: FRANCHISE_INPUT_def FRANCHISE_DATA_def DATA_DIR_def)
  have h1: "files world_franchise_csv FRANCHISE_DATA = None"
    using d by (simp add: world_franchise_csv_def)
  have h2: "files world_franchise_csv FRANCHISE_INPUT = Some (Csv franchise_csv)"
    by (simp add: world_franchise_csv_def)
  have h3: "''latitude'' \<in> set (columns franchise_csv)" by (simp add: franchise_csv_def)
  have h4: "''longitude'' \<in> set (columns franchise_csv)" by (simp add: franchise_csv_def)
  have h5: "writable world_franchise_csv FRANCHISE_DATA
      (franchise_csv\<lparr>rows := filter (\<lambda>r. \<not> isna (cell_of r ''latitude'') \<and> \<not> isna (cell_of r ''longitude''))
                           (rows franchise_csv)\<rparr>)"
    by (simp add: world_franchise_csv_def serializable_def franchise_csv_def column_cells_def
        cell_of_def)
  have h6: "length (rows franchise_csv) = 5" by (simp add: franchise_csv_def)
  have h7: "length (filter (\<lambda>r. isna (cell_of r ''longitude'')) (rows franchise_csv)) = 1"
    by (simp add: franchise_csv_def cell_of_def)
  have h8: "list_all (\<lambda>r. \<not> isna (cell_of r ''latitude'')) (rows franchise_csv)"
    by (simp add: franchise_csv_def cell_of_def)
  have k: "franchise_csv\<lparr>rows := filter (\<lambda>r. \<not> isna (cell_of r ''latitude'') \<and> \<not> isna (cell_of r ''longitude''))
                           (rows franchise_csv)\<rparr> = franchise_kept"
    by (simp add: franchise_csv_def franchise_kept_def cell_of_def)
  from load_franchise_data_two_calls [OF h1 h2 h3 h4 h5 h6 h7 h8]
  obtain w1 where
    a: "load_franchise_data world_franchise_csv = (Inr franchise_kept, w1)" and
    b: "length (rows franchise_kept) = 4" and
    c: "files w1 = (files world_franchise_csv)(FRANCHISE_DATA \<mapsto> Parquet franchise_kept)" and
    e: "load_franchise_data w1 = (Inr franchise_kept, record_event (ReadParquet FRANCHISE_DATA) w1)"
    unfolding k by blast
  have l: "log w1 = [ReadCsv FRANCHISE_INPUT, WriteParquet FRANCHISE_DATA]"
    using a load_franchise_from_csv [OF h1 h2 h3 h4 h5] by (simp add: world_franchise_csv_def)
  show ?thesis
    using h1 h2 h6 h7 a b c e l by (simp add: record_event_def)
qed

text \<open>
  Claim C8 says that a loader whose source file is absent shows an error and returns an
  empty record set. Both loaders return \<^verbatim>\<open>pd.DataFrame()\<close> and raise nothing, and
  \<^verbatim>\<open>load_usina_data\<close> shows its message; \<^verbatim>\<open>load_franchise_data\<close>, with neither snapshot nor
  source file, leaves the state as it found it: it shows nothing.
\<close>

theorem loaders_source_absent:
  "(files w FRANCHISE_DATA = None \<and> files w FRANCHISE_INPUT = None \<longrightarrow>
      load_franchise_data w = (Inr empty_frame, w)) \<and>
   (files w USINA_INPUT = None \<longrightarrow>
      load_usina_data w = (Inr empty_frame, st_error usinas_not_found_msg w))"
  by (simp add: load_franchise_data_def load_usina_data_def path_exists_def)

text \<open>
  With no file at all the franchise loader has shown no error, the plant loader one.
\<close>

theorem loaders_source_absent_witness:
  "files world_no_files FRANCHISE_DATA = None \<and> files world_no_files FRANCHISE_INPUT = None \<and>
   files world_no_files USINA_INPUT = None \<and>
   fst (load_franchise_data world_no_files) = Inr empty_frame \<and>
   filter is_StError (log (snd (load_franchise_data world_no_files))) = [] \<and>
   fst (load_usina_data world_no_files) = Inr empty_frame \<and>
   filter is_StError (log (snd (load_usina_data world_no_files))) = [StError usinas_not_found_msg]"
proof -
  have h: "files world_no_files FRANCHISE_DATA = None \<and> files world_no_files FRANCHISE_INPUT = None"
    by (simp add: world_no_files_def)
  have u: "files world_no_files USINA_INPUT = None" by (simp add: world_no_files_def)
  from loaders_source_absent [of world_no_files] h u show ?thesis
    by (simp add: st_error_def record_event_def) (simp add: world_no_files_def)
qed

section \<open>The query descriptor\<close>

lemma split_on_append:
  "d \<notin> set l \<Longrightarrow> split_on d (l @ d # rest) = l # split_on d rest"
  by (induction l) (auto split: list.splits)

text \<open>The stripped lines of the query text.\<close>

lemma query_lines_ANEEL_QUERY:
  "query_lines ANEEL_QUERY =
     ['''',
      ''SELECT \"NomMunicipio\", \"SigUF\", \"NomRegiao\",'',
      ''\"NumCoordNEmpreendimento\" AS lat_str,'',
      ''\"NumCoordEEmpreendimento\" AS lng_str'',
      ''FROM \"b1bd71e7-d0ad-4214-9053-cbd58e9564a7\"'',
      ''WHERE'',
      ''\"SigUF\" = '' @ [CHR 0x27] @ ''PA'' @ [CHR 0x27],
      ''AND \"NumCoordNEmpreendimento\" IS NOT NULL'',
      ''LIMIT 80000'',
      '''']"
proof -
  have "split_on (CHR 0x0A) ANEEL_QUERY = [''''] @ ANEEL_QUERY_lines @ [''    '']"
    unfolding ANEEL_QUERY_def ANEEL_QUERY_lines_def
    by (simp add: split_on_append [of _ "_ # _", simplified] )
  then show ?thesis
    by (simp add: query_lines_def ANEEL_QUERY_lines_def strip_def)
qed

lemma where_conditions_ANEEL_QUERY:
  "where_conditions ANEEL_QUERY = Some [Equals ''SigUF'' ''PA'', IsNotNull ''NumCoordNEmpreendimento'']"
  by (simp add: where_conditions_def query_lines_ANEEL_QUERY parse_condition_def strip_def Let_def)

lemma select_items_ANEEL_QUERY:
  "select_items ANEEL_QUERY =
     [''\"NomMunicipio\"'', ''\"SigUF\"'', ''\"NomRegiao\"'',
      ''\"NumCoordNEmpreendimento\" AS lat_str'',
      ''\"NumCoordEEmpreendimento\" AS lng_str'']"
  by (simp add: select_items_def query_lines_ANEEL_QUERY strip_def Let_def)

text \<open>
  Claim C9 says that the query filters rows by the coordinate fields being non-null. Its
  \<^verbatim>\<open>WHERE\<close> clause tests one of them: a row of state \<^verbatim>\<open>PA\<close> with a
  \<^verbatim>\<open>NumCoordNEmpreendimento\<close> and a null \<^verbatim>\<open>NumCoordEEmpreendimento\<close> passes the clause.
\<close>

theorem aneel_query_coordinate_fields_counterexample:
  "aneel_where [''SigUF'' \<mapsto> Str ''PA'', ''NumCoordNEmpreendimento'' \<mapsto> Str ''-1,45'',
                ''NumCoordEEmpreendimento'' \<mapsto> NoneV] \<and>
   isna (cell_of [''SigUF'' \<mapsto> Str ''PA'', ''NumCoordNEmpreendimento'' \<mapsto> Str ''-1,45'',
                  ''NumCoordEEmpreendimento'' \<mapsto> NoneV] ''NumCoordEEmpreendimento'')"
  by (simp add: aneel_where_def where_conditions_ANEEL_QUERY cell_of_def)

text \<open>
  Claim C9, amended. Each call of the fetcher's body sends one HTTP GET to the fixed URL
  whose \<^verbatim>\<open>sql\<close> parameter is the fixed string \<^verbatim>\<open>ANEEL_QUERY\<close>. The \<^verbatim>\<open>WHERE\<close> clause of that
  string is exactly \<^verbatim>\<open>"SigUF" = 'PA' AND "NumCoordNEmpreendimento" IS NOT NULL\<close>: a row
  passes when its state code is \<^verbatim>\<open>PA\<close> and that one coordinate field is not null. The
  other coordinate field, \<^verbatim>\<open>NumCoordEEmpreendimento\<close>, is an item of the select list, as
  \<^verbatim>\<open>lng_str\<close>, and is named on no other line of the query. The query ends with
  \<^verbatim>\<open>LIMIT 80000\<close>.
\<close>

theorem fetch_aneel_query_descriptor:
  "filter is_HttpGet (log (snd (fetch_aneel_body w))) =
     filter is_HttpGet (log w) @ [HttpGet ANEEL_URL [(''sql'', ANEEL_QUERY)]] \<and>
   where_conditions ANEEL_QUERY =
     Some [Equals ''SigUF'' ''PA'', IsNotNull ''NumCoordNEmpreendimento''] \<and>
   (\<forall>r. aneel_where r \<longleftrightarrow>
      cell_of r ''SigUF'' = Str ''PA'' \<and> \<not> isna (cell_of r ''NumCoordNEmpreendimento'')) \<and>
   select_items ANEEL_QUERY =
     [''\"NomMunicipio\"'', ''\"SigUF\"'', ''\"NomRegiao\"'',
      ''\"NumCoordNEmpreendimento\" AS lat_str'',
      ''\"NumCoordEEmpreendimento\" AS lng_str''] \<and>
   filter (sublist ''NumCoordEEmpreendimento'') (query_lines ANEEL_QUERY) =
     [''\"NumCoordEEmpreendimento\" AS lng_str''] \<and>
   dropWhile (\<lambda>l. \<not> prefix ''LIMIT'' l) (query_lines ANEEL_QUERY) = [''LIMIT 80000'', '''']"
proof (intro conjI allI)
  show "filter is_HttpGet (log (snd (fetch_aneel_body w))) =
     filter is_HttpGet (log w) @ [HttpGet ANEEL_URL [(''sql'', ANEEL_QUERY)]]"
    by (simp add: fetch_aneel_body_def record_event_def st_error_def Let_def
        split: attempt.splits exn.splits)
  show "where_conditions ANEEL_QUERY =
     Some [Equals ''SigUF'' ''PA'', IsNotNull ''NumCoordNEmpreendimento'']"
    by (rule where_conditions_ANEEL_QUERY)
  show "aneel_where r \<longleftrightarrow>
      cell_of r ''SigUF'' = Str ''PA'' \<and> \<not> isna (cell_of r ''NumCoordNEmpreendimento'')" for r
    by (simp add: aneel_where_def where_conditions_ANEEL_QUERY)
  show "select_items ANEEL_QUERY =
     [''\"NomMunicipio\"'', ''\"SigUF\"'', ''\"NomRegiao\"'',
      ''\"NumCoordNEmpreendimento\" AS lat_str'',
      ''\"NumCoordEEmpreendimento\" AS lng_str'']"
    by (rule select_items_ANEEL_QUERY)
  show "filter (sublist ''NumCoordEEmpreendimento'') (query_lines ANEEL_QUERY) =
     [''\"NumCoordEEmpreendimento\" AS lng_str'']"
    by (simp add: query_lines_ANEEL_QUERY sublist_Cons_right)
  show "dropWhile (\<lambda>l. \<not> prefix ''LIMIT'' l) (query_lines ANEEL_QUERY) = [''LIMIT 80000'', '''']"
    by (simp add: query_lines_ANEEL_QUERY)
qed


end
